theory Spec2Isabelle
  imports Main "HOL-Library.Multiset" "HOL-Library.Char_ord" "HOL-Library.List_Lexorder"
begin

section \<open>Text primitives of the pipeline\<close>

text \<open>
  The program \<^verbatim>\<open>synk.py\<close> reads and writes tab-separated text files line by line.
  A file is modelled as the list of its lines, each line as Python's file iteration
  yields it (with its terminating newline, when it has one). A \<^typ>\<open>char\<close> is a
  character with a code point below 256 (ASCII and the Latin-1 supplement); text with
  other characters is outside the model. The character classes below are Python's
  \<^verbatim>\<open>str.isspace\<close>, \<^verbatim>\<open>str.isdigit\<close>, \<^verbatim>\<open>str.upper\<close> and \<^verbatim>\<open>str.lower\<close> on these
  characters.

  A function of the program whose body is wrapped in
  \<^verbatim>\<open>try: ... except Exception as e: fail(...)\<close> returns \<open>Inl e\<close> when the exception \<open>e\<close>
  reaches that handler: \<^verbatim>\<open>fail\<close> prints a diagnostic and ends the process with status 1,
  so no output file is written. \<open>Inr\<close> carries what the function writes.
\<close>

datatype exn = TypeError | ValueError | KeyError | IndexError | AttributeError | SystemExit

definition TAB :: char where
  "TAB = CHR 0x09"

definition NL :: char where
  "NL = CHR 0x0A"

text \<open>
  \<^verbatim>\<open>c.isspace()\<close>, the characters that \<^verbatim>\<open>str.strip()\<close> removes: the ASCII controls
  9 to 13 and 28 to 31, the blank, and the Latin-1 characters NEL (0x85) and no-break
  space (0xA0).
\<close>

definition is_space :: "char \<Rightarrow> bool" where
  "is_space c \<longleftrightarrow>
     c \<in> set [CHR 0x09, CHR 0x0A, CHR 0x0B, CHR 0x0C, CHR 0x0D,
               CHR 0x1C, CHR 0x1D, CHR 0x1E, CHR 0x1F, CHR 0x20, CHR 0x85, CHR 0xA0]"

text \<open>The decimal digits 0 to 9.\<close>

definition is_decimal :: "char \<Rightarrow> bool" where
  "is_decimal c \<longleftrightarrow> c \<in> set ''0123456789''"

text \<open>
  \<^verbatim>\<open>c.isdigit()\<close>: the decimal digits and the superscript digits two (0xB2), three
  (0xB3) and one (0xB9).
\<close>

definition is_digit :: "char \<Rightarrow> bool" where
  "is_digit c \<longleftrightarrow> is_decimal c \<or> c \<in> set [CHR 0xB2, CHR 0xB3, CHR 0xB9]"

text \<open>\<^verbatim>\<open>s.isdigit()\<close>: every character is a digit and there is at least one.\<close>

definition isdigit :: "string \<Rightarrow> bool" where
  "isdigit s \<longleftrightarrow> s \<noteq> [] \<and> list_all is_digit s"

text \<open>\<^verbatim>\<open>s.strip()\<close>: leading and trailing whitespace removed.\<close>

definition strip :: "string \<Rightarrow> string" where
  "strip s = rev (dropWhile is_space (rev (dropWhile is_space s)))"

text \<open>\<^verbatim>\<open>s.split("\t")\<close>: never empty; the empty string gives one empty field.\<close>

fun split_tab :: "string \<Rightarrow> string list" where
  "split_tab [] = [[]]"
| "split_tab (c # cs) =
     (if c = TAB then [] # split_tab cs
      else (case split_tab cs of [] \<Rightarrow> [[c]] | p # ps \<Rightarrow> (c # p) # ps))"

text \<open>\<^verbatim>\<open>"\t".join(parts)\<close>.\<close>

fun join_tab :: "string list \<Rightarrow> string" where
  "join_tab [] = []"
| "join_tab [p] = p"
| "join_tab (p # q # ps) = p @ TAB # join_tab (q # ps)"

text \<open>\<^verbatim>\<open>xs[i]\<close> for a non-negative index: out of range raises \<^verbatim>\<open>IndexError\<close>.\<close>

definition getitem :: "'a list \<Rightarrow> nat \<Rightarrow> exn + 'a" where
  "getitem xs i = (if i < length xs then Inr (xs ! i) else Inl IndexError)"

section \<open>The numeric-chromosome filter\<close>

text \<open>
  \<^verbatim>\<open>
  def filter_non_integer_chrs(filepath):
      try:
          cleaned = []
          with open(filepath, "r") as f:
              for i, line in enumerate(f):
                  parts = line.strip().split("\t")
                  if i == 0 or (parts[0].isdigit() and parts[3].isdigit()):
                      cleaned.append(line)
                  else:
                      log(...)
          with open(filepath, "w") as f:
              f.writelines(cleaned)
      except Exception as e:
          fail(...)
  \<close>
  \<open>keep_line i line\<close> is the loop's condition, evaluated left to right as Python does:
  \<^verbatim>\<open>parts[3]\<close> is read only when \<^verbatim>\<open>i != 0\<close> and \<^verbatim>\<open>parts[0].isdigit()\<close>.
\<close>

definition keep_line :: "nat \<Rightarrow> string \<Rightarrow> exn + bool" where
  "keep_line i line =
     (let parts = split_tab (strip line) in
      if i = 0 then Inr True
      else (case getitem parts 0 of
              Inl e \<Rightarrow> Inl e
            | Inr p0 \<Rightarrow>
                if isdigit p0 then
                  (case getitem parts 3 of
                     Inl e \<Rightarrow> Inl e
                   | Inr p3 \<Rightarrow> Inr (isdigit p3))
                else Inr False))"

fun filter_loop :: "nat \<Rightarrow> string list \<Rightarrow> string list \<Rightarrow> exn + string list" where
  "filter_loop i [] cleaned = Inr cleaned"
| "filter_loop i (line # rest) cleaned =
     (case keep_line i line of
        Inl e \<Rightarrow> Inl e
      | Inr True \<Rightarrow> filter_loop (Suc i) rest (cleaned @ [line])
      | Inr False \<Rightarrow> filter_loop (Suc i) rest cleaned)"

definition filter_non_integer_chrs :: "string list \<Rightarrow> exn + string list" where
  "filter_non_integer_chrs lines = filter_loop 0 lines []"

text \<open>The fields of a line as the program sees them.\<close>

definition line_parts :: "string \<Rightarrow> string list" where
  "line_parts line = split_tab (strip line)"

section \<open>Chromosome remapping\<close>

text \<open>
  \<^verbatim>\<open>
  def load_map(path):
      m = {}
      with open(path) as f:
          for line in f:
              old, new = line.strip().split("\t")
              m[old] = new
      return m
  \<close>
  Unpacking a list that has not exactly two elements raises \<^verbatim>\<open>ValueError\<close>.
\<close>

fun load_map_loop :: "string list \<Rightarrow> (string \<rightharpoonup> string) \<Rightarrow> exn + (string \<rightharpoonup> string)" where
  "load_map_loop [] m = Inr m"
| "load_map_loop (line # rest) m =
     (case split_tab (strip line) of
        [old, new] \<Rightarrow> load_map_loop rest (m(old \<mapsto> new))
      | _ \<Rightarrow> Inl ValueError)"

definition load_map :: "string list \<Rightarrow> exn + (string \<rightharpoonup> string)" where
  "load_map lines = load_map_loop lines Map.empty"

text \<open>\<^verbatim>\<open>d.get(k, default)\<close>.\<close>

definition dict_get :: "('k \<rightharpoonup> 'v) \<Rightarrow> 'k \<Rightarrow> 'v \<Rightarrow> 'v" where
  "dict_get d k dflt = (case d k of None \<Rightarrow> dflt | Some v \<Rightarrow> v)"

text \<open>
  One iteration of the loop over the data lines of the synteny file:
  \<^verbatim>\<open>
  parts = line.strip().split("\t")
  if len(parts) != 7:
      continue
  parts[0] = rep1.get(parts[0], parts[0])
  parts[3] = rep2.get(parts[3], parts[3])
  out_lines.append("\t".join(parts))
  \<close>
  \<open>None\<close> is the \<^verbatim>\<open>continue\<close>.
\<close>

definition remap_line :: "(string \<rightharpoonup> string) \<Rightarrow> (string \<rightharpoonup> string) \<Rightarrow> string \<Rightarrow> string option" where
  "remap_line rep1 rep2 line =
     (let parts = split_tab (strip line) in
      if length parts \<noteq> 7 then None
      else
        let parts1 = parts[0 := dict_get rep1 (parts ! 0) (parts ! 0)];
            parts2 = parts1[3 := dict_get rep2 (parts1 ! 3) (parts1 ! 3)]
        in Some (join_tab parts2))"

text \<open>
  \<^verbatim>\<open>f.readline()\<close> gives the empty string at the end of the file, so an empty synteny
  file still produces a (blank) header line. Every collected line is written followed by
  a newline.
\<close>

definition apply_chr_replacements :: "string list \<Rightarrow> string list \<Rightarrow> string list \<Rightarrow> exn + string list" where
  "apply_chr_replacements synteny rep1_lines rep2_lines =
     (case load_map rep1_lines of
        Inl e \<Rightarrow> Inl e
      | Inr rep1 \<Rightarrow>
          (case load_map rep2_lines of
             Inl e \<Rightarrow> Inl e
           | Inr rep2 \<Rightarrow>
               (let header = strip (case synteny of [] \<Rightarrow> [] | h # _ \<Rightarrow> h);
                    out_lines = header # List.map_filter (remap_line rep1 rep2) (tl synteny)
                in Inr (map (\<lambda>line. line @ [NL]) out_lines))))"

section \<open>Fill resolution\<close>

text \<open>
  \<^verbatim>\<open>
  color_dict = {}
  for line in f:
      if line.strip():
          parts = line.strip().split("\t")
          if len(parts) == 2:
              color_dict[parts[0]] = parts[1]
  \<close>
\<close>

fun color_dict_loop :: "string list \<Rightarrow> (string \<rightharpoonup> string) \<Rightarrow> (string \<rightharpoonup> string)" where
  "color_dict_loop [] d = d"
| "color_dict_loop (line # rest) d =
     (if strip line \<noteq> [] then
        (let parts = split_tab (strip line) in
         if length parts = 2 then color_dict_loop rest (d(parts ! 0 \<mapsto> parts ! 1))
         else color_dict_loop rest d)
      else color_dict_loop rest d)"

text \<open>
  \<^verbatim>\<open>
  for i, line in enumerate(infile):
      if not line.strip():
          continue
      parts = line.strip().split("\t")
      if i == 0:
          outfile.write(line)
          continue
      if len(parts) != 7:
          continue
      key = parts[0]
      fill = color_dict.get(key)
      if fill:
          parts[-1] = fill
          outfile.write("\t".join(parts) + "\n")
  \<close>
  The result is the list of strings written, in order. \<^verbatim>\<open>if fill\<close> is false for
  \<^verbatim>\<open>None\<close> and for the empty string.
\<close>

fun fill_loop :: "(string \<rightharpoonup> string) \<Rightarrow> nat \<Rightarrow> string list \<Rightarrow> string list" where
  "fill_loop d i [] = []"
| "fill_loop d i (line # rest) =
     (if strip line = [] then fill_loop d (Suc i) rest
      else
        (let parts = split_tab (strip line) in
         if i = 0 then line # fill_loop d (Suc i) rest
         else if length parts \<noteq> 7 then fill_loop d (Suc i) rest
         else
           (case d (parts ! 0) of
              None \<Rightarrow> fill_loop d (Suc i) rest
            | Some fill \<Rightarrow>
                if fill \<noteq> [] then
                  (join_tab (parts[length parts - 1 := fill]) @ [NL]) # fill_loop d (Suc i) rest
                else fill_loop d (Suc i) rest)))"

text \<open>Nothing in the body raises once both files are open, so the result is the output.\<close>

definition replace_fill :: "string list \<Rightarrow> string list \<Rightarrow> string list" where
  "replace_fill input_lines color_map_lines =
     fill_loop (color_dict_loop color_map_lines Map.empty) 0 input_lines"

section \<open>Chromosome ordering and colour assignment\<close>

text \<open>
  \<^verbatim>\<open>int(s)\<close> for a string: surrounding whitespace is ignored, one sign is allowed, and
  the decimal digits may be grouped by single underscores. \<open>None\<close> is the
  \<^verbatim>\<open>ValueError\<close>. The whitespace that \<^verbatim>\<open>int\<close> ignores is not that of
  \<^verbatim>\<open>str.strip\<close>: it is TAB, LF, VT, FF, CR and the blank, and of the other characters
  NEL and the no-break space, which the conversion turns into blanks first; the controls
  28 to 31 are not ignored. Superscript digits are no decimal digits.
  (The limit that recent interpreters put on the number of digits is not modelled.)
\<close>

definition is_int_space :: "char \<Rightarrow> bool" where
  "is_int_space c \<longleftrightarrow>
     c \<in> set [CHR 0x09, CHR 0x0A, CHR 0x0B, CHR 0x0C, CHR 0x0D, CHR 0x20, CHR 0x85, CHR 0xA0]"

definition int_strip :: "string \<Rightarrow> string" where
  "int_strip s = rev (dropWhile is_int_space (rev (dropWhile is_int_space s)))"

definition digit_val :: "char \<Rightarrow> nat" where
  "digit_val c = of_char c - 48"

fun dec_loop :: "nat \<Rightarrow> string \<Rightarrow> nat option" where
  "dec_loop acc [] = None"
| "dec_loop acc [c] = (if is_decimal c then Some (10 * acc + digit_val c) else None)"
| "dec_loop acc (c # d # cs) =
     (if is_decimal c then
        (if d = CHR ''_'' then dec_loop (10 * acc + digit_val c) cs
         else dec_loop (10 * acc + digit_val c) (d # cs))
      else None)"

definition py_int :: "string \<Rightarrow> int option" where
  "py_int s =
     (case int_strip s of
        [] \<Rightarrow> None
      | c # cs \<Rightarrow>
          if c = CHR ''-'' then map_option (\<lambda>n. - int n) (dec_loop 0 cs)
          else if c = CHR ''+'' then map_option int (dec_loop 0 cs)
          else map_option int (dec_loop 0 (c # cs)))"

text \<open>
  The letters of the model's characters: A to Z and the Latin-1 capitals 0xC0 to 0xDE
  (without the multiplication sign 0xD7), and their small letters, 32 further up.
\<close>

definition capital_letters :: string where
  "capital_letters =
     ''ABCDEFGHIJKLMNOPQRSTUVWXYZ'' @
       [CHR 0xC0, CHR 0xC1, CHR 0xC2, CHR 0xC3, CHR 0xC4, CHR 0xC5, CHR 0xC6, CHR 0xC7,
        CHR 0xC8, CHR 0xC9, CHR 0xCA, CHR 0xCB, CHR 0xCC, CHR 0xCD, CHR 0xCE, CHR 0xCF,
        CHR 0xD0, CHR 0xD1, CHR 0xD2, CHR 0xD3, CHR 0xD4, CHR 0xD5, CHR 0xD6, CHR 0xD8,
        CHR 0xD9, CHR 0xDA, CHR 0xDB, CHR 0xDC, CHR 0xDD, CHR 0xDE]"

definition small_letters :: string where
  "small_letters =
     ''abcdefghijklmnopqrstuvwxyz'' @
       [CHR 0xE0, CHR 0xE1, CHR 0xE2, CHR 0xE3, CHR 0xE4, CHR 0xE5, CHR 0xE6, CHR 0xE7,
        CHR 0xE8, CHR 0xE9, CHR 0xEA, CHR 0xEB, CHR 0xEC, CHR 0xED, CHR 0xEE, CHR 0xEF,
        CHR 0xF0, CHR 0xF1, CHR 0xF2, CHR 0xF3, CHR 0xF4, CHR 0xF5, CHR 0xF6, CHR 0xF8,
        CHR 0xF9, CHR 0xFA, CHR 0xFB, CHR 0xFC, CHR 0xFD, CHR 0xFE]"

text \<open>
  \<^verbatim>\<open>s.upper()\<close>, character by character: a small letter becomes its capital and the
  sharp s (0xDF) becomes \<^verbatim>\<open>SS\<close>. The upper case of the micro sign (0xB5) and of y with
  diaeresis (0xFF) has a code point above 255; these two are left as they are, which
  gives the same lookup in the Roman-numeral table, whose keys hold the letters I, V and X
  only.
\<close>

definition upper_char :: "char \<Rightarrow> string" where
  "upper_char c =
     (if c = CHR 0xDF then ''SS''
      else (case map_of (zip small_letters capital_letters) c of None \<Rightarrow> [c] | Some u \<Rightarrow> [u]))"

definition upper :: "string \<Rightarrow> string" where
  "upper s = concat (map upper_char s)"

text \<open>\<^verbatim>\<open>s.lower()\<close>: a capital letter becomes its small letter.\<close>

definition lower_char :: "char \<Rightarrow> char" where
  "lower_char c = (case map_of (zip capital_letters small_letters) c of None \<Rightarrow> c | Some l \<Rightarrow> l)"

definition lower :: "string \<Rightarrow> string" where
  "lower s = map lower_char s"

definition ROMAN_NUMERAL_MAP :: "(string \<times> int) list" where
  "ROMAN_NUMERAL_MAP =
     [(''I'', 1), (''II'', 2), (''III'', 3), (''IV'', 4), (''V'', 5), (''VI'', 6), (''VII'', 7),
      (''VIII'', 8), (''IX'', 9), (''X'', 10), (''XI'', 11), (''XII'', 12), (''XIII'', 13),
      (''XIV'', 14), (''XV'', 15), (''XVI'', 16), (''XVII'', 17), (''XVIII'', 18), (''XIX'', 19),
      (''XX'', 20)]"

text \<open>
  \<^verbatim>\<open>
  def try_parse_chr(chr_label):
      try:
          return int(chr_label)
      except ValueError:
          return ROMAN_NUMERAL_MAP.get(chr_label.upper(), chr_label)
  \<close>
  The result is an \<^verbatim>\<open>int\<close> or a \<^verbatim>\<open>str\<close>.
\<close>

datatype chr_key = KInt int | KStr string

definition try_parse_chr :: "string \<Rightarrow> chr_key" where
  "try_parse_chr chr_label =
     (case py_int chr_label of
        Some n \<Rightarrow> KInt n
      | None \<Rightarrow>
          (case map_of ROMAN_NUMERAL_MAP (upper chr_label) of
             Some n \<Rightarrow> KInt n
           | None \<Rightarrow> KStr chr_label))"

text \<open>
  Python's \<^verbatim>\<open><\<close> on sort keys: integers by value, strings by code point, and
  \<^verbatim>\<open>TypeError\<close> between an integer and a string.
\<close>

fun key_lt :: "chr_key \<Rightarrow> chr_key \<Rightarrow> exn + bool" where
  "key_lt (KInt a) (KInt b) = Inr (a < b)"
| "key_lt (KStr a) (KStr b) = Inr (a < b)"
| "key_lt (KInt a) (KStr b) = Inl TypeError"
| "key_lt (KStr a) (KInt b) = Inl TypeError"

text \<open>
  \<^verbatim>\<open>sorted(xs, key=f)\<close>: a stable sort that compares keys with \<^verbatim>\<open><\<close> only and lets
  the exception of a comparison through. It is modelled as insertion from the right:
  an element goes in front of the first element whose key is not smaller than its own,
  so equal keys keep their input order.
\<close>

fun insort_py :: "('a \<Rightarrow> chr_key) \<Rightarrow> 'a \<Rightarrow> 'a list \<Rightarrow> exn + 'a list" where
  "insort_py f x [] = Inr [x]"
| "insort_py f x (y # ys) =
     (case key_lt (f y) (f x) of
        Inl e \<Rightarrow> Inl e
      | Inr True \<Rightarrow> (case insort_py f x ys of Inl e \<Rightarrow> Inl e | Inr zs \<Rightarrow> Inr (y # zs))
      | Inr False \<Rightarrow> Inr (x # y # ys))"

fun sorted_py :: "('a \<Rightarrow> chr_key) \<Rightarrow> 'a list \<Rightarrow> exn + 'a list" where
  "sorted_py f [] = Inr []"
| "sorted_py f (x # xs) =
     (case sorted_py f xs of Inl e \<Rightarrow> Inl e | Inr ys \<Rightarrow> insort_py f x ys)"

text \<open>
  A table read by \<^verbatim>\<open>pandas.read_csv\<close>: the column names in order and the rows, each
  row giving the cell of every column. \<open>NaN\<close> is the missing value; \<open>Val s\<close> is a cell
  whose text is \<open>s\<close>. Reading and type inference are the library's and are not modelled.
\<close>

datatype cell = NaN | Val string

record dataframe =
  columns :: "string list"
  df_rows :: "(string \<Rightarrow> cell) list"

definition astype_str :: "cell \<Rightarrow> string" where
  "astype_str c = (case c of NaN \<Rightarrow> ''nan'' | Val s \<Rightarrow> s)"

text \<open>\<^verbatim>\<open>Series.unique()\<close>: the distinct values in order of first appearance.\<close>

definition unique :: "'a list \<Rightarrow> 'a list" where
  "unique xs = rev (remdups (rev xs))"

text \<open>\<^verbatim>\<open>str(n)\<close> for integers.\<close>

function str_nat :: "nat \<Rightarrow> string" where
  "str_nat n = (if n < 10 then [''0123456789'' ! n] else str_nat (n div 10) @ [''0123456789'' ! (n mod 10)])"
  by pat_completeness auto
termination
  by (relation "measure id") auto

declare str_nat.simps [simp del]

definition str_int :: "int \<Rightarrow> string" where
  "str_int n = (if n < 0 then CHR ''-'' # str_nat (nat (- n)) else str_nat (nat n))"

text \<open>
  \<^verbatim>\<open>
  def generate_color_gradient(num_colors, cmap_name='plasma'):
      cmap = cm.get_cmap(cmap_name, num_colors)
      return [mcolors.to_hex(cmap(i)).replace('#', '') for i in range(num_colors)]
  \<close>
  The colour library is not part of the program and is a parameter: \<open>mpl name n\<close> is
  \<open>None\<close> when \<^verbatim>\<open>cm.get_cmap(name, n)\<close> raises (an unknown name), and otherwise
  \<open>Some g\<close> with \<open>g i\<close> the string \<^verbatim>\<open>mcolors.to_hex(cmap(i))\<close>.
\<close>

type_synonym colormaps = "string \<Rightarrow> nat \<Rightarrow> (nat \<Rightarrow> string) option"

definition generate_color_gradient :: "colormaps \<Rightarrow> nat \<Rightarrow> string \<Rightarrow> exn + string list" where
  "generate_color_gradient mpl num_colors cmap_name =
     (case mpl cmap_name num_colors of
        None \<Rightarrow> Inl ValueError
      | Some cmap \<Rightarrow> Inr (map (\<lambda>i. filter (\<lambda>c. c \<noteq> CHR ''#'') (cmap i)) [0..<num_colors]))"

text \<open>
  \<^verbatim>\<open>
  def create_chr_color_map(karyo_file, output_file, replace_output_file, cmap_name='plasma'):
      try:
          df = pd.read_csv(karyo_file, sep="\t")
          if 'Chr' not in df.columns:
              fail("Karyotype file must contain a 'Chr' column.")
          chromosomes = df['Chr'].astype(str).unique()
          chromosomes_sorted = sorted(chromosomes, key=try_parse_chr)
          colors = generate_color_gradient(len(chromosomes_sorted), cmap_name)
          with open(output_file, 'w') as out, open(replace_output_file, 'w') as rep:
              for i, (chr_label, color) in enumerate(zip(chromosomes_sorted, colors)):
                  out.write(f"{chr_label}\t{color}\n")
                  rep.write(f"{i+1}\t{color}\n")
      except Exception as e:
          fail(...)
  \<close>
  The result is the pair of files written: the label-to-colour map and the
  rank-to-colour map, each as its list of lines.
\<close>

definition chr_labels :: "dataframe \<Rightarrow> string list" where
  "chr_labels df = unique (map (\<lambda>r. astype_str (r ''Chr'')) (df_rows df))"

definition create_chr_color_map :: "colormaps \<Rightarrow> dataframe \<Rightarrow> string \<Rightarrow> exn + string list \<times> string list" where
  "create_chr_color_map mpl df cmap_name =
     (if ''Chr'' \<notin> set (columns df) then Inl SystemExit
      else
        (let chromosomes = chr_labels df in
         case sorted_py try_parse_chr chromosomes of
           Inl e \<Rightarrow> Inl e
         | Inr chromosomes_sorted \<Rightarrow>
             (case generate_color_gradient mpl (length chromosomes_sorted) cmap_name of
                Inl e \<Rightarrow> Inl e
              | Inr colors \<Rightarrow>
                  (let pairs = zip chromosomes_sorted colors;
                       enumerated = zip [0..<length pairs] pairs
                   in Inr (map (\<lambda>(i, chr_label, color). chr_label @ [TAB] @ color @ [NL]) enumerated,
                           map (\<lambda>(i, chr_label, color). str_nat (i + 1) @ [TAB] @ color @ [NL]) enumerated)))))"

section \<open>Ortholog matching\<close>

text \<open>
  A row of \<^verbatim>\<open>csv.DictReader\<close> is a dictionary from the header's column names to
  values: a string, or \<^verbatim>\<open>None\<close> for a column that a short line does not reach.
  A column that the header lacks is no key of the row. The reader itself (quoting,
  blank lines) is the library's; the tables are given as the rows it yields.
\<close>

datatype pyval = PyNone | PyStr string

type_synonym row = "string \<rightharpoonup> pyval"

text \<open>
  \<^verbatim>\<open>d[k] = v\<close> on a dictionary that keeps insertion order: an existing key keeps its
  place, a new key goes to the end.
\<close>

fun dict_set :: "('k \<times> 'v) list \<Rightarrow> 'k \<Rightarrow> 'v \<Rightarrow> ('k \<times> 'v) list" where
  "dict_set [] k v = [(k, v)]"
| "dict_set ((k', v') # d) k v = (if k' = k then (k, v) # d else (k', v') # dict_set d k v)"

text \<open>
  \<^verbatim>\<open>
  def read_busco(path, label):
      data = {}
      with open(path) as f:
          reader = csv.DictReader(f, delimiter="\t")
          for row in reader:
              if row.get("Status", "").strip() != "Complete":
                  continue
              bid = row["# Busco id"].strip().lower()
              data.setdefault(bid, {})[label] = row
      return data
  \<close>
  Each call uses one label, so the inner dictionary has the single entry \<^verbatim>\<open>label\<close>
  and \<open>data\<close> maps an identifier to its row. \<^verbatim>\<open>None.strip()\<close> raises
  \<^verbatim>\<open>AttributeError\<close> and a missing key \<^verbatim>\<open>KeyError\<close>; both reach the handler of
  \<^verbatim>\<open>merge_busco\<close>.
\<close>

definition row_status :: "row \<Rightarrow> exn + string" where
  "row_status row =
     (case row ''Status'' of
        None \<Rightarrow> Inr (strip [])
      | Some PyNone \<Rightarrow> Inl AttributeError
      | Some (PyStr s) \<Rightarrow> Inr (strip s))"

definition row_bid :: "row \<Rightarrow> exn + string" where
  "row_bid row =
     (case row ''# Busco id'' of
        None \<Rightarrow> Inl KeyError
      | Some PyNone \<Rightarrow> Inl AttributeError
      | Some (PyStr s) \<Rightarrow> Inr (lower (strip s)))"

fun read_busco_loop :: "row list \<Rightarrow> (string \<times> row) list \<Rightarrow> exn + (string \<times> row) list" where
  "read_busco_loop [] data = Inr data"
| "read_busco_loop (row # rest) data =
     (case row_status row of
        Inl e \<Rightarrow> Inl e
      | Inr status \<Rightarrow>
          if status \<noteq> ''Complete'' then read_busco_loop rest data
          else
            (case row_bid row of
               Inl e \<Rightarrow> Inl e
             | Inr bid \<Rightarrow> read_busco_loop rest (dict_set data bid row)))"

definition read_busco :: "row list \<Rightarrow> exn + (string \<times> row) list" where
  "read_busco table = read_busco_loop table []"

text \<open>
  The body of the loop over the shared identifiers:
  \<^verbatim>\<open>
  try:
      row1 = b1[bid]["1"]
      row2 = b2[bid]["2"]
      chr1 = row1.get("Contig") or row1.get("Sequence")
      chr2 = row2.get("Contig") or row2.get("Sequence")
      start1 = int(float(row1["Gene Start"]))
      end1 = int(float(row1["Gene End"]))
      start2 = int(float(row2["Gene Start"]))
      end2 = int(float(row2["Gene End"]))
      if not chr1 or not chr2:
          continue
      out.write(f"{chr1}\t{start1}\t{end1}\t{chr2}\t{start2}\t{end2}\tplaceholder\n")
  except:
      continue
  \<close>
  Floating-point parsing is a parameter: \<open>int_float s\<close> is \<^verbatim>\<open>int(float(s))\<close>, and
  \<open>None\<close> when either conversion raises. Every exception in the body ends in
  \<^verbatim>\<open>continue\<close>, which is \<open>None\<close> here.
\<close>

definition py_get :: "row \<Rightarrow> string \<Rightarrow> pyval" where
  "py_get row k = (case row k of None \<Rightarrow> PyNone | Some v \<Rightarrow> v)"

definition truthy :: "pyval \<Rightarrow> bool" where
  "truthy v = (case v of PyNone \<Rightarrow> False | PyStr s \<Rightarrow> s \<noteq> [])"

definition py_or :: "pyval \<Rightarrow> pyval \<Rightarrow> pyval" where
  "py_or a b = (if truthy a then a else b)"

definition contig :: "row \<Rightarrow> pyval" where
  "contig row = py_or (py_get row ''Contig'') (py_get row ''Sequence'')"

definition coord :: "(string \<Rightarrow> int option) \<Rightarrow> row \<Rightarrow> string \<Rightarrow> int option" where
  "coord int_float row k = (case row k of Some (PyStr s) \<Rightarrow> int_float s | _ \<Rightarrow> None)"

definition link_line :: "(string \<Rightarrow> int option) \<Rightarrow> row \<Rightarrow> row \<Rightarrow> string option" where
  "link_line int_float row1 row2 =
     (let chr1 = contig row1; chr2 = contig row2 in
      case coord int_float row1 ''Gene Start'' of None \<Rightarrow> None | Some start1 \<Rightarrow>
      case coord int_float row1 ''Gene End'' of None \<Rightarrow> None | Some end1 \<Rightarrow>
      case coord int_float row2 ''Gene Start'' of None \<Rightarrow> None | Some start2 \<Rightarrow>
      case coord int_float row2 ''Gene End'' of None \<Rightarrow> None | Some end2 \<Rightarrow>
      if \<not> truthy chr1 \<or> \<not> truthy chr2 then None
      else
        (case (chr1, chr2) of
           (PyStr c1, PyStr c2) \<Rightarrow>
             Some (join_tab [c1, str_int start1, str_int end1, c2, str_int start2, str_int end2,
                             ''placeholder''] @ [NL])
         | _ \<Rightarrow> None))"

definition link_row :: "(string \<Rightarrow> int option) \<Rightarrow> (string \<times> row) list \<Rightarrow> (string \<times> row) list \<Rightarrow> string \<Rightarrow> string option" where
  "link_row int_float b1 b2 bid =
     (case map_of b1 bid of
        None \<Rightarrow> None
      | Some row1 \<Rightarrow>
          (case map_of b2 bid of
             None \<Rightarrow> None
           | Some row2 \<Rightarrow> link_line int_float row1 row2))"

definition link_header :: string where
  "link_header =
     join_tab [''Species_1'', ''Start_1'', ''End_1'', ''Species_2'', ''Start_2'', ''End_2'', ''fill'']
       @ [NL]"

text \<open>
  \<^verbatim>\<open>
  b1 = read_busco(busco1_path, "1")
  b2 = read_busco(busco2_path, "2")
  shared = [bid for bid in b1 if bid in b2]
  with open(output_path, "w") as out:
      out.write("Species_1\tStart_1\tEnd_1\tSpecies_2\tStart_2\tEnd_2\tfill\n")
      for bid in shared: ...
  \<close>
\<close>

definition shared_ids :: "(string \<times> row) list \<Rightarrow> (string \<times> row) list \<Rightarrow> string list" where
  "shared_ids b1 b2 = filter (\<lambda>bid. bid \<in> set (map fst b2)) (map fst b1)"

definition merge_busco :: "(string \<Rightarrow> int option) \<Rightarrow> row list \<Rightarrow> row list \<Rightarrow> exn + string list" where
  "merge_busco int_float busco1 busco2 =
     (case read_busco busco1 of
        Inl e \<Rightarrow> Inl e
      | Inr b1 \<Rightarrow>
          (case read_busco busco2 of
             Inl e \<Rightarrow> Inl e
           | Inr b2 \<Rightarrow>
               Inr (link_header # List.map_filter (link_row int_float b1 b2) (shared_ids b1 b2))))"

section \<open>Karyotype augmentation\<close>

text \<open>
  \<^verbatim>\<open>
  def augment_karyotype(karyo_file, color_map, fill_all=None, size=None, color=None):
      try:
          df = pd.read_csv(karyo_file, sep="\t")
          if fill_all:
              df['fill'] = fill_all
          else:
              chr_color_map = pd.read_csv(color_map, sep="\t", header=None, names=["Chr", "fill"])
              df = df.merge(chr_color_map, on="Chr", how="left")
              fill_x = df['fill_x'] if 'fill_x' in df.columns else pd.Series([None] * len(df))
              fill_y = df['fill_y'] if 'fill_y' in df.columns else pd.Series([None] * len(df))
              fill   = df['fill']    if 'fill' in df.columns    else pd.Series([None] * len(df))
              df['fill'] = fill_x.combine_first(fill_y).combine_first(fill)
              df.drop(columns=[col for col in ['fill_x', 'fill_y'] if col in df.columns], inplace=True)
          df['size'] = size
          df['color'] = color
          expected_order = ['Chr', 'Start', 'End', 'fill', 'species', 'size', 'color']
          df = df[[col for col in expected_order if col in df.columns]]
          df.to_csv(karyo_file, sep="\t", index=False)
      except Exception as e:
          fail(...)
  \<close>
  The karyotype is given as the table read from it. The colour map is read only in the
  \<^verbatim>\<open>else\<close> branch, under the fixed names \<^verbatim>\<open>Chr\<close> and \<^verbatim>\<open>fill\<close>: it is given as the
  result of that read, an exception or the list of its (Chr, fill) rows.
\<close>

text \<open>\<^verbatim>\<open>df[name] = ...\<close>: an existing column is overwritten, a new one is appended.\<close>

definition assign_column :: "string \<Rightarrow> ((string \<Rightarrow> cell) \<Rightarrow> cell) \<Rightarrow> dataframe \<Rightarrow> dataframe" where
  "assign_column name f df =
     \<lparr>columns = (if name \<in> set (columns df) then columns df else columns df @ [name]),
      df_rows = map (\<lambda>r. r(name := f r)) (df_rows df)\<rparr>"

text \<open>
  \<^verbatim>\<open>df.merge(chr_color_map, on="Chr", how="left")\<close>: \<^verbatim>\<open>KeyError\<close> when the left table
  has no \<^verbatim>\<open>Chr\<close> column. Every left row is paired with each colour-map row of the same
  \<^verbatim>\<open>Chr\<close>, or once with a missing fill. A \<^verbatim>\<open>fill\<close> column of the left table is
  renamed \<^verbatim>\<open>fill_x\<close> and the colour map's becomes \<^verbatim>\<open>fill_y\<close>. (The library's errors
  for key columns of different types and for clashing suffixed names are not modelled.)
\<close>

definition merge_left_on_Chr :: "dataframe \<Rightarrow> (cell \<times> cell) list \<Rightarrow> exn + dataframe" where
  "merge_left_on_Chr df chr_color_map =
     (if ''Chr'' \<notin> set (columns df) then Inl KeyError
      else
        (let has_fill = ''fill'' \<in> set (columns df);
             fill_name = (if has_fill then ''fill_y'' else ''fill'');
             cols = (if has_fill then map (\<lambda>c. if c = ''fill'' then ''fill_x'' else c) (columns df)
                     else columns df) @ [fill_name];
             left = (\<lambda>r. if has_fill then r(''fill_x'' := r ''fill'') else r);
             joined = (\<lambda>r. let matches = map snd (filter (\<lambda>(k, f). k = r ''Chr'') chr_color_map)
                            in map (\<lambda>f. (left r)(fill_name := f))
                                 (if matches = [] then [NaN] else matches))
         in Inr \<lparr>columns = cols, df_rows = concat (map joined (df_rows df))\<rparr>))"

text \<open>\<^verbatim>\<open>a.combine_first(b)\<close> on aligned series, cell by cell.\<close>

definition combine_first :: "cell \<Rightarrow> cell \<Rightarrow> cell" where
  "combine_first a b = (case a of NaN \<Rightarrow> b | Val s \<Rightarrow> Val s)"

definition resolve_fill :: "dataframe \<Rightarrow> dataframe" where
  "resolve_fill df =
     (let fill_x = (\<lambda>r. if ''fill_x'' \<in> set (columns df) then r ''fill_x'' else NaN);
          fill_y = (\<lambda>r. if ''fill_y'' \<in> set (columns df) then r ''fill_y'' else NaN);
          fill = (\<lambda>r. if ''fill'' \<in> set (columns df) then r ''fill'' else NaN);
          df1 = assign_column ''fill''
                  (\<lambda>r. combine_first (combine_first (fill_x r) (fill_y r)) (fill r)) df
      in df1\<lparr>columns := filter (\<lambda>c. c \<notin> set [''fill_x'', ''fill_y'']) (columns df1)\<rparr>)"

definition expected_order :: "string list" where
  "expected_order = [''Chr'', ''Start'', ''End'', ''fill'', ''species'', ''size'', ''color'']"

definition finish_karyotype :: "cell \<Rightarrow> cell \<Rightarrow> dataframe \<Rightarrow> dataframe" where
  "finish_karyotype label_size label_color df =
     (let df1 = assign_column ''size'' (\<lambda>r. label_size) df;
          df2 = assign_column ''color'' (\<lambda>r. label_color) df1
      in df2\<lparr>columns := filter (\<lambda>c. c \<in> set (columns df2)) expected_order\<rparr>)"

text \<open>\<^verbatim>\<open>df.to_csv(...)\<close>: the header and, for every row, the cells of the columns in order.\<close>

definition to_csv :: "dataframe \<Rightarrow> string list \<times> cell list list" where
  "to_csv df = (columns df, map (\<lambda>r. map r (columns df)) (df_rows df))"

text \<open>
  \<open>fill_all\<close> is \<open>None\<close> for Python's \<^verbatim>\<open>None\<close>; \<^verbatim>\<open>if fill_all\<close> is true for a
  non-empty string. \<open>label_size\<close> and \<open>label_color\<close> (the source's \<^verbatim>\<open>size\<close> and
  \<^verbatim>\<open>color\<close>) are the cells stored in the new columns (\<open>NaN\<close> for \<^verbatim>\<open>None\<close>). The
  result is the table written back to the karyotype file.
\<close>

definition augment_karyotype :: "dataframe \<Rightarrow> exn + (cell \<times> cell) list \<Rightarrow> string option \<Rightarrow> cell \<Rightarrow> cell \<Rightarrow> exn + string list \<times> cell list list" where
  "augment_karyotype df color_map fill_all label_size label_color =
     (case (case fill_all of None \<Rightarrow> None | Some s \<Rightarrow> if s \<noteq> [] then Some s else None) of
        Some s \<Rightarrow>
          Inr (to_csv (finish_karyotype label_size label_color
                         (assign_column ''fill'' (\<lambda>r. Val s) df)))
      | None \<Rightarrow>
          (case color_map of
             Inl e \<Rightarrow> Inl e
           | Inr chr_color_map \<Rightarrow>
               (case merge_left_on_Chr df chr_color_map of
                  Inl e \<Rightarrow> Inl e
                | Inr merged \<Rightarrow>
                    Inr (to_csv (finish_karyotype label_size label_color
                                   (resolve_fill merged))))))"

section \<open>Notions used to state the properties\<close>

text \<open>
  What \<^verbatim>\<open>replace_fill\<close> writes for one data row, stated from the row's fields: a row of
  seven fields whose first field has a colour is written with its last field replaced by
  that colour; every other row is written as nothing.
\<close>

definition fill_row :: "(string \<rightharpoonup> string) \<Rightarrow> string \<Rightarrow> string list" where
  "fill_row d row =
     (if length (line_parts row) = 7 then
        (case d (line_parts row ! 0) of
           None \<Rightarrow> []
         | Some c \<Rightarrow> [join_tab (take 6 (line_parts row) @ [c]) @ [NL]])
      else [])"

text \<open>
  The seven fields that \<^verbatim>\<open>apply_chr_replacements\<close> writes for a row of seven fields:
  the first looked up in the first map, the fourth in the second, the others as they are.
\<close>

definition remapped_fields :: "(string \<rightharpoonup> string) \<Rightarrow> (string \<rightharpoonup> string) \<Rightarrow> string \<Rightarrow> string list" where
  "remapped_fields rep1 rep2 row =
     (let f = line_parts row in
      [dict_get rep1 (f ! 0) (f ! 0), f ! 1, f ! 2,
       dict_get rep2 (f ! 3) (f ! 3), f ! 4, f ! 5, f ! 6])"

text \<open>A translation file in which every line maps a label to itself.\<close>

definition identity_map_file :: "string list \<Rightarrow> bool" where
  "identity_map_file ls \<longleftrightarrow> (\<forall>line \<in> set ls. \<exists>x. line_parts line = [x, x])"

section \<open>Example data\<close>

definition example_link_1 :: string where
  "example_link_1 = join_tab [''1'', ''10'', ''20'', ''2'', ''30'', ''40'', ''placeholder''] @ [NL]"

definition example_link_X :: string where
  "example_link_X = join_tab [''chrX'', ''15'', ''25'', ''2'', ''35'', ''45'', ''placeholder''] @ [NL]"

definition example_link_raw :: string where
  "example_link_raw =
     join_tab [''chr1'', ''10'', ''20'', ''scaffold_2'', ''30'', ''40'', ''placeholder''] @ [NL]"

definition example_link_padded :: string where
  "example_link_padded =
     join_tab ['' 1'', ''10'', ''20'', ''2'', ''30'', ''40'', ''placeholder''] @ [NL]"

definition example_link_short :: string where
  "example_link_short = join_tab [''7'', ''8''] @ [NL]"

definition example_color_replace :: "string list" where
  "example_color_replace = [join_tab [''1'', ''aabbcc''] @ [NL], join_tab [''2'', ''ddeeff''] @ [NL]]"

definition example_rep1 :: "string list" where
  "example_rep1 = [join_tab [''chr1'', ''1''] @ [NL]]"

definition example_rep2 :: "string list" where
  "example_rep2 = [join_tab [''scaffold_2'', ''2''] @ [NL]]"

definition example_id1 :: "string list" where
  "example_id1 = [join_tab [''1'', ''1''] @ [NL]]"

definition example_id2 :: "string list" where
  "example_id2 = [join_tab [''2'', ''2''] @ [NL]]"

section \<open>Notions used to state the ordering properties\<close>

text \<open>Whether a sort key is an integer, and the value it carries.\<close>

definition is_int_key :: "chr_key \<Rightarrow> bool" where
  "is_int_key k = (case k of KInt n \<Rightarrow> True | KStr s \<Rightarrow> False)"

definition int_of_key :: "chr_key \<Rightarrow> int" where
  "int_of_key k = (case k of KInt n \<Rightarrow> n | KStr s \<Rightarrow> 0)"

definition str_of_key :: "chr_key \<Rightarrow> string" where
  "str_of_key k = (case k of KInt n \<Rightarrow> [] | KStr s \<Rightarrow> s)"

text \<open>The colours that \<^verbatim>\<open>generate_color_gradient\<close> returns for the samples \<open>g\<close>.\<close>

definition gradient_colors :: "(nat \<Rightarrow> string) \<Rightarrow> nat \<Rightarrow> string list" where
  "gradient_colors g n = map (\<lambda>i. filter (\<lambda>c. c \<noteq> CHR ''#'') (g i)) [0..<n]"

text \<open>
  Example data: a stand-in for the colour library that knows one gradient, and a
  karyotype table with the given \<^verbatim>\<open>Chr\<close> column.
\<close>

definition example_mpl :: colormaps where
  "example_mpl name n =
     (if name = ''plasma'' then
        Some (\<lambda>i. if i = 0 then ''#0d0887'' else if i + 1 = n then ''#f0f921'' else ''#cc4778'')
      else None)"

definition karyotype_of :: "string list \<Rightarrow> dataframe" where
  "karyotype_of chrs =
     \<lparr>columns = [''Chr'', ''Start'', ''End'', ''Species''],
      df_rows = map (\<lambda>chr col. if col = ''Chr'' then Val chr
                               else if col = ''Start'' then Val ''1''
                               else if col = ''End'' then Val ''1000''
                               else Val ''sp1'') chrs\<rparr>"

section \<open>Notions used to state the ortholog properties\<close>

text \<open>
  A row is complete when its status, without surrounding whitespace, is \<^verbatim>\<open>Complete\<close>.
  Its identifier is the trimmed, lower-cased \<^verbatim>\<open># Busco id\<close>. A table is clean when no
  row makes \<^verbatim>\<open>read_busco\<close> raise: no status is \<^verbatim>\<open>None\<close>, and every complete row
  has an identifier.
\<close>

definition complete :: "row \<Rightarrow> bool" where
  "complete row = (case row ''Status'' of Some (PyStr s) \<Rightarrow> strip s = ''Complete'' | _ \<Rightarrow> False)"

definition bid_of :: "row \<Rightarrow> string" where
  "bid_of row = (case row_bid row of Inl e \<Rightarrow> [] | Inr bid \<Rightarrow> bid)"

definition clean_row :: "row \<Rightarrow> bool" where
  "clean_row row \<longleftrightarrow>
     row ''Status'' \<noteq> Some PyNone \<and>
     (complete row \<longrightarrow> (case row ''# Busco id'' of Some (PyStr s) \<Rightarrow> True | _ \<Rightarrow> False))"

text \<open>
  The record of an identifier in a table is the last complete row that carries it; the
  identifiers of a table are listed in the order of their first complete row.
\<close>

definition last_complete :: "row list \<Rightarrow> string \<Rightarrow> row option" where
  "last_complete table bid =
     (case filter (\<lambda>row. complete row \<and> bid_of row = bid) table of
        [] \<Rightarrow> None
      | r # rs \<Rightarrow> Some (last (r # rs)))"

definition first_seen :: "row list \<Rightarrow> string list" where
  "first_seen table = unique (map bid_of (filter complete table))"

text \<open>
  A row has a valid contig and valid coordinates when the contig (or else the sequence)
  is a non-empty string and both coordinates convert to integers. An identifier is shared
  when both tables have a record for it and both records are valid.
\<close>

definition valid_row :: "(string \<Rightarrow> int option) \<Rightarrow> row \<Rightarrow> bool" where
  "valid_row int_float row \<longleftrightarrow>
     truthy (contig row) \<and> coord int_float row ''Gene Start'' \<noteq> None \<and>
     coord int_float row ''Gene End'' \<noteq> None"

definition shared_valid :: "(string \<Rightarrow> int option) \<Rightarrow> row list \<Rightarrow> row list \<Rightarrow> string \<Rightarrow> bool" where
  "shared_valid int_float table1 table2 bid =
     (case last_complete table1 bid of
        None \<Rightarrow> False
      | Some row1 \<Rightarrow>
          (case last_complete table2 bid of
             None \<Rightarrow> False
           | Some row2 \<Rightarrow> valid_row int_float row1 \<and> valid_row int_float row2))"

definition link_of :: "(string \<Rightarrow> int option) \<Rightarrow> row list \<Rightarrow> row list \<Rightarrow> string \<Rightarrow> string option" where
  "link_of int_float table1 table2 bid =
     (case last_complete table1 bid of
        None \<Rightarrow> None
      | Some row1 \<Rightarrow>
          (case last_complete table2 bid of
             None \<Rightarrow> None
           | Some row2 \<Rightarrow> link_line int_float row1 row2))"

text \<open>
  Example ortholog tables. For their coordinates, small decimal integers,
  \<^verbatim>\<open>int(float(s))\<close> is \<^verbatim>\<open>int(s)\<close>.
\<close>

definition busco_row :: "string \<Rightarrow> string \<Rightarrow> string \<Rightarrow> string \<Rightarrow> string \<Rightarrow> row" where
  "busco_row bid status seq gstart gend =
     map_of [(''# Busco id'', PyStr bid), (''Status'', PyStr status), (''Sequence'', PyStr seq),
             (''Gene Start'', PyStr gstart), (''Gene End'', PyStr gend)]"

definition example_busco1 :: "row list" where
  "example_busco1 =
     [busco_row ''1at100'' ''Complete'' ''1'' ''100'' ''200'',
      busco_row ''2at100'' ''Complete'' ''2'' ''300'' ''400'',
      busco_row ''3at100'' ''Fragmented'' ''2'' ''500'' ''600'',
      busco_row ''4at100'' ''Complete'' ''3'' ''700'' ''800'']"

definition example_busco2 :: "row list" where
  "example_busco2 =
     [busco_row ''2AT100'' ''Complete'' ''7'' ''30'' ''40'',
      busco_row ''3at100'' ''Complete'' ''7'' ''50'' ''60'',
      busco_row ''1at100'' ''Complete'' ''5'' ''10'' ''20'']"

definition example_int_float :: "string \<Rightarrow> int option" where
  "example_int_float s = py_int s"

text \<open>Example data: a karyotype table without a \<^verbatim>\<open>Chr\<close> column, and a colour map.\<close>

definition example_karyotype_no_chr :: dataframe where
  "example_karyotype_no_chr =
     \<lparr>columns = [''Start'', ''End'', ''Species''],
      df_rows = [\<lambda>col. if col = ''Start'' then Val ''1''
                        else if col = ''End'' then Val ''1000'' else Val ''sp2'']\<rparr>"

definition example_chr_color_map :: "(cell \<times> cell) list" where
  "example_chr_color_map = [(Val ''1'', Val ''0d0887''), (Val ''2'', Val ''f0f921'')]"

section \<open>Facts about the text primitives\<close>

lemma split_tab_not_Nil: "split_tab s \<noteq> []"
  by (induction s) (auto split: list.splits)

lemma line_parts_not_Nil: "line_parts line \<noteq> []"
  by (simp add: line_parts_def split_tab_not_Nil)

lemma getitem_line_parts_0: "getitem (line_parts line) 0 = Inr (line_parts line ! 0)"
  using line_parts_not_Nil [of line] by (simp add: getitem_def)

lemma isdigit_iff: "isdigit s \<longleftrightarrow> s \<noteq> [] \<and> (\<forall>c \<in> set s. is_digit c)"
  by (simp add: isdigit_def list_all_iff)

lemmas text_defs = line_parts_def strip_def is_space_def is_digit_def is_decimal_def isdigit_def
  TAB_def NL_def

lemma join_split_tab: "join_tab (split_tab s) = s"
proof (induction s)
  case Nil
  show ?case by simp
next
  case (Cons c cs)
  obtain p ps where sp: "split_tab cs = p # ps"
    using split_tab_not_Nil [of cs] by (cases "split_tab cs") auto
  show ?case
  proof (cases "c = TAB")
    case True
    with Cons sp show ?thesis by simp
  next
    case False
    with Cons sp show ?thesis by (cases ps) auto
  qed
qed

lemma split_tab_single_empty: "split_tab s = [[]] \<longleftrightarrow> s = []"
  using split_tab_not_Nil [of "tl s"] by (cases s) (auto split: list.splits)

lemma last_split_tab_empty: "last (split_tab s) = [] \<longleftrightarrow> s = [] \<or> last s = TAB"
proof (induction s)
  case Nil
  show ?case by simp
next
  case (Cons c cs)
  obtain p ps where sp: "split_tab cs = p # ps"
    using split_tab_not_Nil [of cs] by (cases "split_tab cs") auto
  show ?case
  proof (cases "c = TAB")
    case True
    with Cons sp show ?thesis by (cases cs) auto
  next
    case False
    show ?thesis
    proof (cases ps)
      case Nil
      with sp Cons split_tab_single_empty [of cs] False show ?thesis by (cases cs) auto
    next
      case (Cons q qs)
      with sp Cons.IH False show ?thesis by (cases cs) auto
    qed
  qed
qed

lemma strip_last_not_space: "strip s \<noteq> [] \<Longrightarrow> \<not> is_space (last (strip s))"
proof -
  assume ne: "strip s \<noteq> []"
  let ?t = "dropWhile is_space (rev (dropWhile is_space s))"
  from ne have "?t \<noteq> []" by (simp add: strip_def)
  then have "\<not> is_space (hd ?t)" by (rule hd_dropWhile)
  moreover have "last (strip s) = hd ?t"
    using \<open>?t \<noteq> []\<close> by (simp add: strip_def last_rev)
  ultimately show ?thesis by simp
qed

lemma is_space_TAB: "is_space TAB"
  by (simp add: is_space_def TAB_def)

lemma line_parts_two_snd_nonempty:
  assumes "length (line_parts line) = 2"
  shows "line_parts line ! 1 \<noteq> []"
proof
  assume e: "line_parts line ! 1 = []"
  from assms have "last (line_parts line) = line_parts line ! 1"
    by (cases "line_parts line") (auto simp: last_conv_nth)
  with e have "last (split_tab (strip line)) = []" by (simp add: line_parts_def)
  then have "strip line = [] \<or> last (strip line) = TAB"
    by (simp add: last_split_tab_empty)
  moreover have "strip line \<noteq> []"
    using assms by (auto simp: line_parts_def)
  ultimately have "is_space (last (strip line))" by (simp add: is_space_TAB)
  with strip_last_not_space [OF \<open>strip line \<noteq> []\<close>] show False by simp
qed

lemma color_dict_loop_nonempty:
  "(\<forall>k v. d k = Some v \<longrightarrow> v \<noteq> []) \<Longrightarrow> color_dict_loop ls d k = Some v \<Longrightarrow> v \<noteq> []"
proof (induction ls arbitrary: d)
  case Nil
  then show ?case by simp
next
  case (Cons l ls)
  show ?case
  proof (cases "strip l \<noteq> [] \<and> length (line_parts l) = 2")
    case True
    let ?d = "d(line_parts l ! 0 \<mapsto> line_parts l ! 1)"
    have "\<forall>k v. ?d k = Some v \<longrightarrow> v \<noteq> []"
      using Cons.prems(1) line_parts_two_snd_nonempty True by auto
    moreover have "color_dict_loop ls ?d k = Some v"
      using Cons.prems(2) True by (simp add: line_parts_def Let_def)
    ultimately show ?thesis by (rule Cons.IH)
  next
    case False
    then have "color_dict_loop ls d k = Some v"
      using Cons.prems(2) by (auto simp: line_parts_def Let_def split: if_splits)
    with Cons.prems(1) show ?thesis by (rule Cons.IH)
  qed
qed


section \<open>Example data, evaluated\<close>

lemma ex1_parts: "line_parts example_link_1 = [''1'', ''10'', ''20'', ''2'', ''30'', ''40'', ''placeholder'']"
  by (simp add: example_link_1_def text_defs)

lemma exX_parts: "line_parts example_link_X = [''chrX'', ''15'', ''25'', ''2'', ''35'', ''45'', ''placeholder'']"
  by (simp add: example_link_X_def text_defs)

lemma exshort_parts: "line_parts example_link_short = [''7'', ''8'']"
  by (simp add: example_link_short_def text_defs)

lemma header_parts: "line_parts link_header = [''Species_1'', ''Start_1'', ''End_1'', ''Species_2'', ''Start_2'', ''End_2'', ''fill'']"
  by (simp add: link_header_def text_defs)

lemma ex_color_dict: "color_dict_loop example_color_replace Map.empty = [''1'' \<mapsto> ''aabbcc'', ''2'' \<mapsto> ''ddeeff'']"
  by (simp add: example_color_replace_def text_defs)

lemma ex_rep1: "load_map example_rep1 = Inr [''chr1'' \<mapsto> ''1'']"
  by (simp add: load_map_def example_rep1_def text_defs)
lemma ex_rep2: "load_map example_rep2 = Inr [''scaffold_2'' \<mapsto> ''2'']"
  by (simp add: load_map_def example_rep2_def text_defs)

lemma exraw_parts: "line_parts example_link_raw = [''chr1'', ''10'', ''20'', ''scaffold_2'', ''30'', ''40'', ''placeholder'']"
  by (simp add: example_link_raw_def text_defs)

lemma ex_id1: "identity_map_file example_id1"
  by (simp add: identity_map_file_def example_id1_def text_defs)
lemma ex_id2: "identity_map_file example_id2"
  by (simp add: identity_map_file_def example_id2_def text_defs)


section \<open>The numeric-chromosome filter: properties\<close>

lemma keep_line_Suc:
  "keep_line (Suc i) line =
     (if isdigit (line_parts line ! 0) then
        (if length (line_parts line) < 4 then Inl IndexError
         else Inr (isdigit (line_parts line ! 3)))
      else Inr False)"
  using line_parts_not_Nil [of line]
  by (simp add: keep_line_def line_parts_def [symmetric] getitem_def)

lemma filter_loop_Suc:
  "filter_loop (Suc i) rows cleaned =
     (if \<exists>row \<in> set rows. isdigit (line_parts row ! 0) \<and> length (line_parts row) < 4
      then Inl IndexError
      else Inr (cleaned @
             filter (\<lambda>row. isdigit (line_parts row ! 0) \<and> isdigit (line_parts row ! 3)) rows))"
  by (induction rows arbitrary: i cleaned) (auto simp: keep_line_Suc)

lemma filter_non_integer_chrs_Cons:
  "filter_non_integer_chrs (header # rows) =
     (if \<exists>row \<in> set rows. isdigit (line_parts row ! 0) \<and> length (line_parts row) < 4
      then Inl IndexError
      else Inr (header #
             filter (\<lambda>row. isdigit (line_parts row ! 0) \<and> isdigit (line_parts row ! 3)) rows))"
  by (simp add: filter_non_integer_chrs_def keep_line_def filter_loop_Suc)

text \<open>
  Claim C7. The filter keeps the header line and keeps a data row exactly when its first
  and its fourth field are both made of decimal digits only (\<open>isdigit\<close>: at least one
  character, each of them one of 0 to 9, see \<open>isdigit_iff\<close>); so a data row whose first
  or fourth field holds a character that is no digit is not in the output. The fields
  are those of the line without its surrounding whitespace, and every row whose first
  field is numeric is taken to have a fourth field.
\<close>

theorem filter_non_integer_chrs_retains_digit_rows:
  assumes "\<forall>row \<in> set rows. isdigit (line_parts row ! 0) \<longrightarrow> 4 \<le> length (line_parts row)"
  shows "filter_non_integer_chrs (header # rows) =
           Inr (header #
             filter (\<lambda>row. isdigit (line_parts row ! 0) \<and> isdigit (line_parts row ! 3)) rows)
         \<and> (\<forall>out row. filter_non_integer_chrs (header # rows) = Inr (header # out) \<longrightarrow>
               row \<in> set out \<longrightarrow>
               (\<forall>c \<in> set (line_parts row ! 0) \<union> set (line_parts row ! 3). is_digit c))"
proof -
  have eq: "filter_non_integer_chrs (header # rows) =
           Inr (header #
             filter (\<lambda>row. isdigit (line_parts row ! 0) \<and> isdigit (line_parts row ! 3)) rows)"
    using assms by (auto simp: filter_non_integer_chrs_Cons)
  then show ?thesis
    by (auto simp: isdigit_def list_all_iff)
qed

theorem filter_non_integer_chrs_retains_digit_rows_witness:
  "filter_non_integer_chrs [link_header, example_link_1, example_link_X] =
     Inr [link_header, example_link_1]"
  using filter_non_integer_chrs_retains_digit_rows
          [of "[example_link_1, example_link_X]" link_header]
  by (simp add: ex1_parts exX_parts isdigit_def is_digit_def is_decimal_def)

text \<open>
  Claim C10. A data row whose first field is all digits and which has fewer than four
  fields makes the filter end the run with a fatal error (the \<^verbatim>\<open>IndexError\<close> of the
  unguarded \<^verbatim>\<open>parts[3]\<close>) instead of dropping the row.
\<close>

theorem filter_non_integer_chrs_short_row_fatal:
  assumes "row \<in> set rows" and "isdigit (line_parts row ! 0)" and "length (line_parts row) < 4"
  shows "filter_non_integer_chrs (header # rows) = Inl IndexError"
  using assms by (auto simp: filter_non_integer_chrs_Cons)

theorem filter_non_integer_chrs_short_row_fatal_witness:
  "filter_non_integer_chrs [link_header, example_link_1, example_link_short] = Inl IndexError"
  using filter_non_integer_chrs_short_row_fatal
          [of example_link_short "[example_link_1, example_link_short]" link_header]
  by (simp add: exshort_parts isdigit_def is_digit_def is_decimal_def)

section \<open>Fill resolution: properties\<close>

lemma update_last_7: "length ps = 7 \<Longrightarrow> ps[length ps - 1 := c] = take 6 ps @ [c]"
  by (auto simp: list_eq_iff_nth_eq nth_append nth_list_update)

lemma line_parts_blank: "strip row = [] \<Longrightarrow> length (line_parts row) = 1"
  by (simp add: line_parts_def)

lemma fill_loop_Suc:
  assumes "\<forall>k v. d k = Some v \<longrightarrow> v \<noteq> []"
  shows "fill_loop d (Suc i) rows = concat (map (fill_row d) rows)"
proof (induction rows arbitrary: i)
  case Nil
  show ?case by simp
next
  case (Cons row rows)
  show ?case
  proof (cases "strip row = []")
    case True
    then show ?thesis using Cons line_parts_blank [OF True] by (simp add: fill_row_def)
  next
    case False
    show ?thesis
    proof (cases "length (line_parts row) = 7")
      case seven: True
      show ?thesis
      proof (cases "d (line_parts row ! 0)")
        case None
        with False seven Cons show ?thesis
          by (simp add: fill_row_def line_parts_def [symmetric] Let_def)
      next
        case (Some c)
        with assms have "c \<noteq> []" by blast
        with Some False seven Cons update_last_7 [OF seven] show ?thesis
          by (simp add: fill_row_def line_parts_def [symmetric] Let_def)
      qed
    next
      case False2: False
      with False Cons show ?thesis
        by (simp add: fill_row_def line_parts_def [symmetric] Let_def)
    qed
  qed
qed

text \<open>
  Claim C3. The header line (any first line that is not blank) is copied unchanged. For
  each data row the first field is looked up in the colour map read from the colour
  file: a row of seven fields with an entry is written with its first six fields as they
  are and the seventh replaced by the colour; a row without an entry is not written at
  all.
\<close>

theorem replace_fill_rows:
  assumes "strip header \<noteq> []"
  shows "replace_fill (header # rows) color_map_lines =
           header # concat (map (fill_row (color_dict_loop color_map_lines Map.empty)) rows)"
proof -
  have "\<forall>k v. color_dict_loop color_map_lines Map.empty k = Some v \<longrightarrow> v \<noteq> []"
    using color_dict_loop_nonempty [of Map.empty] by auto
  then show ?thesis
    using assms by (simp add: replace_fill_def fill_loop_Suc Let_def)
qed


theorem replace_fill_rows_witness:
  "replace_fill [link_header, example_link_1, example_link_X] example_color_replace =
     [link_header, join_tab [''1'', ''10'', ''20'', ''2'', ''30'', ''40'', ''aabbcc''] @ [NL]]"
proof -
  have "strip link_header \<noteq> []" by (simp add: link_header_def text_defs)
  from replace_fill_rows [OF this, of "[example_link_1, example_link_X]" example_color_replace]
  show ?thesis
    by (simp add: ex_color_dict fill_row_def ex1_parts exX_parts)
qed

section \<open>Chromosome remapping: properties\<close>

lemma list7: "length ps = 7 \<Longrightarrow> \<exists>a b c d e f g. ps = [a, b, c, d, e, f, g]"
  by (auto simp: numeral_eq_Suc length_Suc_conv)

lemma remap_line_eq:
  "remap_line rep1 rep2 row =
     (if length (line_parts row) = 7
      then Some (join_tab (remapped_fields rep1 rep2 row)) else None)"
proof (cases "length (line_parts row) = 7")
  case True
  from list7 [OF True] obtain a b c d e f g where ps: "line_parts row = [a, b, c, d, e, f, g]"
    by blast
  then show ?thesis
    by (simp add: remap_line_def remapped_fields_def line_parts_def [symmetric] Let_def)
next
  case False
  then show ?thesis
    by (simp add: remap_line_def line_parts_def [symmetric] Let_def)
qed

lemma map_filter_remap:
  "List.map_filter (remap_line rep1 rep2) rows =
     map (\<lambda>row. join_tab (remapped_fields rep1 rep2 row))
       (filter (\<lambda>row. length (line_parts row) = 7) rows)"
  by (induction rows) (auto simp: List.map_filter_simps remap_line_eq)

text \<open>
  Claim C9. For any two translation maps that load, every data row of exactly seven
  fields is written as its seven fields joined by tabs, where only the first field (looked
  up in the first map) and the fourth field (looked up in the second map) can differ from
  the input: fields 2, 3, 5, 6 and 7 are those of the input row.
\<close>

theorem apply_chr_replacements_frame:
  assumes "load_map rep1_lines = Inr rep1" and "load_map rep2_lines = Inr rep2"
  shows "apply_chr_replacements (header # rows) rep1_lines rep2_lines =
           Inr ((strip header @ [NL]) #
                map (\<lambda>row. join_tab (remapped_fields rep1 rep2 row) @ [NL])
                  (filter (\<lambda>row. length (line_parts row) = 7) rows))"
  using assms
  by (simp add: apply_chr_replacements_def map_filter_remap o_def)

theorem apply_chr_replacements_frame_witness:
  "apply_chr_replacements [link_header, example_link_raw, example_link_short]
     example_rep1 example_rep2 = Inr [link_header, example_link_1]"
  using apply_chr_replacements_frame
          [OF ex_rep1 ex_rep2, of link_header "[example_link_raw, example_link_short]"]
  by (simp add: exraw_parts exshort_parts remapped_fields_def dict_get_def example_link_1_def)
    (simp add: link_header_def text_defs)

lemma load_map_loop_identity:
  assumes "identity_map_file ls" and "\<forall>k v. m k = Some v \<longrightarrow> v = k"
  shows "\<exists>m'. load_map_loop ls m = Inr m' \<and> (\<forall>k v. m' k = Some v \<longrightarrow> v = k)"
  using assms
proof (induction ls arbitrary: m)
  case Nil
  then show ?case by simp
next
  case (Cons l ls)
  from Cons.prems(1) obtain x where x: "split_tab (strip l) = [x, x]"
    by (auto simp: identity_map_file_def line_parts_def)
  have "identity_map_file ls"
    using Cons.prems(1) by (simp add: identity_map_file_def)
  moreover have "\<forall>k v. (m(x \<mapsto> x)) k = Some v \<longrightarrow> v = k"
    using Cons.prems(2) by auto
  ultimately have "\<exists>m'. load_map_loop ls (m(x \<mapsto> x)) = Inr m' \<and> (\<forall>k v. m' k = Some v \<longrightarrow> v = k)"
    by (rule Cons.IH)
  with x show ?case by simp
qed

lemma dict_get_identity: "\<forall>k v. m k = Some v \<longrightarrow> v = k \<Longrightarrow> dict_get m k k = k"
  by (auto simp: dict_get_def split: option.splits)

lemma remapped_fields_identity:
  assumes "\<forall>k v. rep1 k = Some v \<longrightarrow> v = k" and "\<forall>k v. rep2 k = Some v \<longrightarrow> v = k"
    and "length (line_parts row) = 7"
  shows "join_tab (remapped_fields rep1 rep2 row) = strip row"
proof -
  have "join_tab (line_parts row) = strip row"
    by (simp add: line_parts_def join_split_tab)
  moreover from list7 [OF assms(3)] obtain a b c d e f g where "line_parts row = [a, b, c, d, e, f, g]"
    by blast
  ultimately show ?thesis
    using assms(1,2) by (simp add: remapped_fields_def dict_get_identity)
qed

text \<open>
  Claim C8, as the program has it. With two identity translation files, the header is
  written without its surrounding whitespace, every data row of exactly seven fields is
  written without its surrounding whitespace and ended by one newline (so a row that is
  already in that form is unchanged byte for byte), and every other row is dropped.
\<close>

theorem apply_chr_replacements_identity:
  assumes "identity_map_file rep1_lines" and "identity_map_file rep2_lines"
  shows "apply_chr_replacements (header # rows) rep1_lines rep2_lines =
           Inr ((strip header @ [NL]) #
                map (\<lambda>row. strip row @ [NL]) (filter (\<lambda>row. length (line_parts row) = 7) rows))"
proof -
  from load_map_loop_identity [OF assms(1), of Map.empty]
  obtain rep1 where r1: "load_map rep1_lines = Inr rep1" "\<forall>k v. rep1 k = Some v \<longrightarrow> v = k"
    by (auto simp: load_map_def)
  from load_map_loop_identity [OF assms(2), of Map.empty]
  obtain rep2 where r2: "load_map rep2_lines = Inr rep2" "\<forall>k v. rep2 k = Some v \<longrightarrow> v = k"
    by (auto simp: load_map_def)
  have "map (\<lambda>row. join_tab (remapped_fields rep1 rep2 row) @ [NL]) (filter (\<lambda>row. length (line_parts row) = 7) rows) =
        map (\<lambda>row. strip row @ [NL]) (filter (\<lambda>row. length (line_parts row) = 7) rows)"
    using r1(2) r2(2) by (auto simp: remapped_fields_identity)
  with r1(1) r2(1) show ?thesis
    by (simp add: apply_chr_replacements_def map_filter_remap o_def)
qed


theorem apply_chr_replacements_identity_witness:
  "apply_chr_replacements [link_header, example_link_1, example_link_short]
     example_id1 example_id2 = Inr [link_header, example_link_1]"
  using apply_chr_replacements_identity
          [OF ex_id1 ex_id2, of link_header "[example_link_1, example_link_short]"]
  by (simp add: ex1_parts exshort_parts)
    (simp add: link_header_def example_link_1_def text_defs)

text \<open>
  Claim C8 as stated fails: a link row of seven fields whose first field starts with a
  blank is rewritten under identity maps.
\<close>

theorem apply_chr_replacements_identity_counterexample:
  "apply_chr_replacements [link_header, example_link_padded] example_id1 example_id2 =
     Inr [link_header, example_link_1] \<and> example_link_1 \<noteq> example_link_padded"
  by (simp add: apply_chr_replacements_def load_map_def example_id1_def example_id2_def
       remap_line_def dict_get_def
       link_header_def example_link_padded_def example_link_1_def text_defs)


section \<open>Chromosome ordering and colour assignment: properties\<close>

lemmas parse_defs = try_parse_chr_def py_int_def digit_val_def int_strip_def is_int_space_def
  is_decimal_def upper_def upper_char_def small_letters_def capital_letters_def
  ROMAN_NUMERAL_MAP_def

lemma insort_py_int:
  assumes "is_int_key (f a)" and "\<forall>x \<in> set xs. is_int_key (f x)"
  shows "insort_py f a xs = Inr (insort_key (\<lambda>x. int_of_key (f x)) a xs)"
  using assms
  by (induction xs) (auto simp: is_int_key_def int_of_key_def split: chr_key.splits)

lemma insort_py_str:
  assumes "\<not> is_int_key (f a)" and "\<forall>x \<in> set xs. \<not> is_int_key (f x)"
  shows "insort_py f a xs = Inr (insort_key (\<lambda>x. str_of_key (f x)) a xs)"
  using assms
  by (induction xs) (auto simp: is_int_key_def str_of_key_def linorder_not_le [symmetric] split: chr_key.splits)

lemma sorted_py_int:
  assumes "\<forall>x \<in> set xs. is_int_key (f x)"
  shows "sorted_py f xs = Inr (sort_key (\<lambda>x. int_of_key (f x)) xs)"
  using assms
proof (induction xs)
  case Nil
  show ?case by simp
next
  case (Cons a xs)
  then have "sorted_py f xs = Inr (sort_key (\<lambda>x. int_of_key (f x)) xs)" by simp
  moreover have "insort_py f a (sort_key (\<lambda>x. int_of_key (f x)) xs) =
      Inr (insort_key (\<lambda>x. int_of_key (f x)) a (sort_key (\<lambda>x. int_of_key (f x)) xs))"
    using Cons.prems by (intro insort_py_int) auto
  ultimately show ?case by simp
qed

lemma sorted_py_str:
  assumes "\<forall>x \<in> set xs. \<not> is_int_key (f x)"
  shows "sorted_py f xs = Inr (sort_key (\<lambda>x. str_of_key (f x)) xs)"
  using assms
proof (induction xs)
  case Nil
  show ?case by simp
next
  case (Cons a xs)
  then have "sorted_py f xs = Inr (sort_key (\<lambda>x. str_of_key (f x)) xs)" by simp
  moreover have "insort_py f a (sort_key (\<lambda>x. str_of_key (f x)) xs) =
      Inr (insort_key (\<lambda>x. str_of_key (f x)) a (sort_key (\<lambda>x. str_of_key (f x)) xs))"
    using Cons.prems by (intro insort_py_str) auto
  ultimately show ?case by simp
qed

lemma sort_key_not_Nil: "xs \<noteq> [] \<Longrightarrow> sort_key k xs \<noteq> []"
  by (metis length_sort length_0_conv)

lemma insort_py_mixed:
  assumes "ys \<noteq> []" and "\<forall>y \<in> set ys. is_int_key (f y) \<noteq> is_int_key (f a)"
  shows "insort_py f a ys = Inl TypeError"
  using assms
  by (cases ys) (auto simp: is_int_key_def split: chr_key.splits)

lemma sorted_py_mixed:
  assumes "\<exists>x \<in> set xs. is_int_key (f x)" and "\<exists>y \<in> set xs. \<not> is_int_key (f y)"
  shows "sorted_py f xs = Inl TypeError"
  using assms
proof (induction xs)
  case Nil
  then show ?case by simp
next
  case (Cons a xs)
  show ?case
  proof (cases "(\<exists>x \<in> set xs. is_int_key (f x)) \<and> (\<exists>y \<in> set xs. \<not> is_int_key (f y))")
    case True
    then have "sorted_py f xs = Inl TypeError" using Cons.IH by blast
    then show ?thesis by simp
  next
    case False
    then consider (ints) "\<forall>x \<in> set xs. is_int_key (f x)" | (strs) "\<forall>x \<in> set xs. \<not> is_int_key (f x)"
      by blast
    then show ?thesis
    proof cases
      case ints
      with Cons.prems have a: "\<not> is_int_key (f a)" and ne: "xs \<noteq> []" by auto
      let ?ys = "sort_key (\<lambda>x. int_of_key (f x)) xs"
      have "sorted_py f xs = Inr ?ys" using ints by (rule sorted_py_int)
      moreover have "?ys \<noteq> []"
        using ne by (rule sort_key_not_Nil)
      then have "insort_py f a ?ys = Inl TypeError"
        using ints a by (intro insort_py_mixed) auto
      ultimately show ?thesis by simp
    next
      case strs
      with Cons.prems have a: "is_int_key (f a)" and ne: "xs \<noteq> []" by auto
      let ?ys = "sort_key (\<lambda>x. str_of_key (f x)) xs"
      have "sorted_py f xs = Inr ?ys" using strs by (rule sorted_py_str)
      moreover have "?ys \<noteq> []"
        using ne by (rule sort_key_not_Nil)
      then have "insort_py f a ?ys = Inl TypeError"
        using strs a by (intro insort_py_mixed) auto
      ultimately show ?thesis by simp
    qed
  qed
qed

text \<open>
  The orderings named in the specification: numbers by value, Roman numerals by value,
  and unparsed labels by their text.
\<close>

lemma sorted_py_numeric_example:
  "sorted_py try_parse_chr [''2'', ''1'', ''10''] = Inr [''1'', ''2'', ''10'']"
  by (simp add: parse_defs)

lemma sorted_py_roman_example:
  "sorted_py try_parse_chr [''III'', ''I'', ''II''] = Inr [''I'', ''II'', ''III'']"
  by (simp add: parse_defs)

lemma sorted_py_text_example:
  "sorted_py try_parse_chr [''chrB'', ''chrA'', ''chrAA'', ''Z''] =
     Inr [''Z'', ''chrA'', ''chrAA'', ''chrB'']"
  by (simp add: parse_defs)

text \<open>
  Claim C4 says that a label set mixing parsed (numeric or Roman) and unparsed labels is
  sorted, the unparsed labels after the parsed ones. The program does not get that far:
  whenever the \<^verbatim>\<open>Chr\<close> column holds a label with an integer key and a label with a text
  key, the comparison of the two keys raises \<^verbatim>\<open>TypeError\<close> and the run ends with a
  fatal error.
\<close>

theorem create_chr_color_map_mixed_labels_fatal:
  assumes "''Chr'' \<in> set (columns df)"
    and "a \<in> set (chr_labels df)" and "is_int_key (try_parse_chr a)"
    and "b \<in> set (chr_labels df)" and "\<not> is_int_key (try_parse_chr b)"
  shows "create_chr_color_map mpl df cmap_name = Inl TypeError"
proof -
  have "sorted_py try_parse_chr (chr_labels df) = Inl TypeError"
    using assms(2-5) by (intro sorted_py_mixed) blast+
  with assms(1) show ?thesis by (simp add: create_chr_color_map_def)
qed

lemma labels_mixed: "chr_labels (karyotype_of [''1'', ''2'', ''MT'']) = [''1'', ''2'', ''MT'']"
  by (simp add: chr_labels_def karyotype_of_def unique_def astype_str_def)

theorem create_chr_color_map_mixed_labels_fatal_witness:
  "create_chr_color_map example_mpl (karyotype_of [''1'', ''2'', ''MT'']) ''plasma'' = Inl TypeError"
proof -
  have "''Chr'' \<in> set (columns (karyotype_of [''1'', ''2'', ''MT'']))"
    by (simp add: karyotype_of_def)
  moreover have "''1'' \<in> set (chr_labels (karyotype_of [''1'', ''2'', ''MT'']))"
    by (simp add: labels_mixed)
  moreover have "is_int_key (try_parse_chr ''1'')"
    by (simp add: is_int_key_def parse_defs)
  moreover have "''MT'' \<in> set (chr_labels (karyotype_of [''1'', ''2'', ''MT'']))"
    by (simp add: labels_mixed)
  moreover have "\<not> is_int_key (try_parse_chr ''MT'')"
    by (simp add: is_int_key_def parse_defs)
  ultimately show ?thesis
    by (rule create_chr_color_map_mixed_labels_fatal)
qed

lemma distinct_unique: "distinct (unique xs)"
  by (simp add: unique_def)

lemma set_unique: "set (unique xs) = set xs"
  by (simp add: unique_def)

lemma sorted_py_same_set:
  assumes "distinct xs" and "distinct ys" and "set ys = set xs"
    and "inj_on f (set xs)"
    and "(\<forall>x \<in> set xs. is_int_key (f x)) \<or> (\<forall>x \<in> set xs. \<not> is_int_key (f x))"
  shows "\<exists>zs. sorted_py f xs = Inr zs \<and> sorted_py f ys = Inr zs \<and> mset zs = mset xs"
proof -
  have ms: "mset ys = mset xs"
    using assms(1-3) by (simp add: set_eq_iff_mset_eq_distinct [symmetric])
  from assms(5) show ?thesis
  proof
    assume ints: "\<forall>x \<in> set xs. is_int_key (f x)"
    let ?k = "\<lambda>x. int_of_key (f x)"
    have "inj_on ?k (set ys)"
      unfolding inj_on_def
    proof (intro ballI impI)
      fix x y assume "x \<in> set ys" "y \<in> set ys" "?k x = ?k y"
      with ints assms(3) have "f x = f y"
        by (auto simp: is_int_key_def int_of_key_def split: chr_key.splits)
      with \<open>x \<in> set ys\<close> \<open>y \<in> set ys\<close> assms(3,4) show "x = y"
        by (auto dest: inj_onD)
    qed
    then have "sort_key ?k ys = sort_key ?k xs"
      using ms by (intro sort_key_inj_key_eq) simp_all
    moreover have "sorted_py f xs = Inr (sort_key ?k xs)"
      using ints by (rule sorted_py_int)
    moreover have "sorted_py f ys = Inr (sort_key ?k ys)"
      using ints assms(3) by (intro sorted_py_int) simp
    ultimately show ?thesis by simp
  next
    assume strs: "\<forall>x \<in> set xs. \<not> is_int_key (f x)"
    let ?k = "\<lambda>x. str_of_key (f x)"
    have "inj_on ?k (set ys)"
      unfolding inj_on_def
    proof (intro ballI impI)
      fix x y assume "x \<in> set ys" "y \<in> set ys" "?k x = ?k y"
      with strs assms(3) have "f x = f y"
        by (auto simp: is_int_key_def str_of_key_def split: chr_key.splits)
      with \<open>x \<in> set ys\<close> \<open>y \<in> set ys\<close> assms(3,4) show "x = y"
        by (auto dest: inj_onD)
    qed
    then have "sort_key ?k ys = sort_key ?k xs"
      using ms by (intro sort_key_inj_key_eq) simp_all
    moreover have "sorted_py f xs = Inr (sort_key ?k xs)"
      using strs by (rule sorted_py_str)
    moreover have "sorted_py f ys = Inr (sort_key ?k ys)"
      using strs assms(3) by (intro sorted_py_str) simp
    ultimately show ?thesis by simp
  qed
qed

lemma color_lines_nth:
  assumes "length ls = n" and "length cs = n"
  shows "map (\<lambda>(i, chr_label, color). h i chr_label color) (zip [0..<length (zip ls cs)] (zip ls cs)) =
         map (\<lambda>i. h i (ls ! i) (cs ! i)) [0..<n]"
  using assms by (auto simp: list_eq_iff_nth_eq)

lemma create_chr_color_map_sorted:
  assumes "''Chr'' \<in> set (columns df)"
    and "sorted_py try_parse_chr (chr_labels df) = Inr ls"
    and "length ls = n"
    and "mpl cmap_name n = Some g"
  shows "create_chr_color_map mpl df cmap_name =
           Inr (map (\<lambda>i. ls ! i @ [TAB] @ gradient_colors g n ! i @ [NL]) [0..<n],
                map (\<lambda>i. str_nat (i + 1) @ [TAB] @ gradient_colors g n ! i @ [NL]) [0..<n])"
proof -
  have len: "length (gradient_colors g n) = n"
    by (simp add: gradient_colors_def)
  have "generate_color_gradient mpl (length ls) cmap_name = Inr (gradient_colors g n)"
    using assms(3,4) by (simp add: generate_color_gradient_def gradient_colors_def)
  then show ?thesis
    using assms(1,2)
      color_lines_nth [OF assms(3) len, of "\<lambda>i chr_label color. chr_label @ [TAB] @ color @ [NL]"]
      color_lines_nth [OF assms(3) len, of "\<lambda>i chr_label color. str_nat (i + 1) @ [TAB] @ color @ [NL]"]
    by (simp add: create_chr_color_map_def Let_def del: upt_Suc)
qed

text \<open>
  Claim C1, as the program has it. Take two karyotypes with the same set of \<open>n\<close>
  chromosome labels, in any row order, whose sort keys are pairwise different and all of
  one kind (all integers or all text), and a gradient name the colour library knows.
  Then both runs write the same two maps, each of \<open>n\<close> lines: line \<open>i\<close> of the label map
  pairs the \<open>i\<close>-th label in key order with the \<open>i\<close>-th sample of the gradient, with
  every \<^verbatim>\<open>#\<close> removed, and line \<open>i\<close> of the rank map pairs \<open>i + 1\<close> with the same
  colour. (That the samples are pairwise different strings of six hexadecimal digits is a
  property of the colour library.)
\<close>

theorem create_chr_color_map_order_independent:
  assumes "''Chr'' \<in> set (columns df)" and "''Chr'' \<in> set (columns df')"
    and "set (chr_labels df') = set (chr_labels df)"
    and "inj_on try_parse_chr (set (chr_labels df))"
    and "(\<forall>l \<in> set (chr_labels df). is_int_key (try_parse_chr l)) \<or>
         (\<forall>l \<in> set (chr_labels df). \<not> is_int_key (try_parse_chr l))"
    and "n = card (set (chr_labels df))"
    and "mpl cmap_name n = Some g"
  shows "create_chr_color_map mpl df' cmap_name = create_chr_color_map mpl df cmap_name \<and>
         (\<exists>ls. mset ls = mset (chr_labels df) \<and>
            create_chr_color_map mpl df cmap_name =
              Inr (map (\<lambda>i. ls ! i @ [TAB] @ gradient_colors g n ! i @ [NL]) [0..<n],
                   map (\<lambda>i. str_nat (i + 1) @ [TAB] @ gradient_colors g n ! i @ [NL]) [0..<n]))"
proof -
  have d: "distinct (chr_labels df)" "distinct (chr_labels df')"
    by (simp_all add: chr_labels_def distinct_unique)
  from sorted_py_same_set [OF d assms(3,4,5)]
  obtain ls where ls: "sorted_py try_parse_chr (chr_labels df) = Inr ls"
      "sorted_py try_parse_chr (chr_labels df') = Inr ls" "mset ls = mset (chr_labels df)"
    by blast
  have "length ls = length (chr_labels df)"
    using ls(3) by (metis size_mset)
  also have "\<dots> = n"
    using d(1) assms(6) by (simp add: distinct_card)
  finally have len: "length ls = n" .
  have a: "create_chr_color_map mpl df cmap_name =
           Inr (map (\<lambda>i. ls ! i @ [TAB] @ gradient_colors g n ! i @ [NL]) [0..<n],
                map (\<lambda>i. str_nat (i + 1) @ [TAB] @ gradient_colors g n ! i @ [NL]) [0..<n])"
    using assms(1) ls(1) len assms(7) by (rule create_chr_color_map_sorted)
  have b: "create_chr_color_map mpl df' cmap_name =
           Inr (map (\<lambda>i. ls ! i @ [TAB] @ gradient_colors g n ! i @ [NL]) [0..<n],
                map (\<lambda>i. str_nat (i + 1) @ [TAB] @ gradient_colors g n ! i @ [NL]) [0..<n])"
    using assms(2) ls(2) len assms(7) by (rule create_chr_color_map_sorted)
  from a b ls(3) show ?thesis by auto
qed


lemma labels_of: "distinct chrs \<Longrightarrow> chr_labels (karyotype_of chrs) = chrs"
  by (simp add: chr_labels_def karyotype_of_def unique_def astype_str_def o_def distinct_remdups_id)

lemma columns_of: "''Chr'' \<in> set (columns (karyotype_of chrs))"
  by (simp add: karyotype_of_def)

theorem create_chr_color_map_order_independent_witness:
  "create_chr_color_map example_mpl (karyotype_of [''10'', ''2'', ''1'']) ''plasma'' =
   create_chr_color_map example_mpl (karyotype_of [''2'', ''1'', ''10'']) ''plasma''"
proof -
  let ?df = "karyotype_of [''2'', ''1'', ''10'']"
  let ?df' = "karyotype_of [''10'', ''2'', ''1'']"
  have l: "chr_labels ?df = [''2'', ''1'', ''10'']" by (simp add: labels_of)
  have l': "chr_labels ?df' = [''10'', ''2'', ''1'']" by (simp add: labels_of)
  have k: "try_parse_chr ''2'' = KInt 2" "try_parse_chr ''1'' = KInt 1" "try_parse_chr ''10'' = KInt 10"
    by (simp_all add: parse_defs)
  have same: "set (chr_labels ?df') = set (chr_labels ?df)"
    by (auto simp: l l')
  have inj: "inj_on try_parse_chr (set (chr_labels ?df))"
    by (simp add: l k)
  have homo: "(\<forall>l \<in> set (chr_labels ?df). is_int_key (try_parse_chr l)) \<or>
         (\<forall>l \<in> set (chr_labels ?df). \<not> is_int_key (try_parse_chr l))"
    by (simp add: l k is_int_key_def)
  have n: "3 = card (set (chr_labels ?df))"
    by (simp add: l)
  have g: "example_mpl ''plasma'' 3 =
     Some (\<lambda>i. if i = 0 then ''#0d0887'' else if i + 1 = 3 then ''#f0f921'' else ''#cc4778'')"
    by (simp add: example_mpl_def)
  from create_chr_color_map_order_independent
         [where mpl = example_mpl and cmap_name = "''plasma''" and n = 3,
          OF columns_of columns_of same inj homo n g]
  show ?thesis by blast
qed

lemma create_chr_color_map_example:
  "create_chr_color_map example_mpl (karyotype_of [''2'', ''1'', ''10'']) ''plasma'' =
     Inr ([join_tab [''1'', ''0d0887''] @ [NL], join_tab [''2'', ''cc4778''] @ [NL],
           join_tab [''10'', ''f0f921''] @ [NL]],
          [join_tab [''1'', ''0d0887''] @ [NL], join_tab [''2'', ''cc4778''] @ [NL],
           join_tab [''3'', ''f0f921''] @ [NL]])"
  by (simp add: create_chr_color_map_def columns_of labels_of parse_defs generate_color_gradient_def
      example_mpl_def str_nat.simps upt_rec)

text \<open>
  Claim C1 as stated fails: the labels \<^verbatim>\<open>1\<close> and \<^verbatim>\<open>I\<close> have the same key, the sort
  is stable, and so the two row orders of the same label set give different label maps.
\<close>

theorem create_chr_color_map_order_independent_counterexample:
  "set (chr_labels (karyotype_of [''I'', ''1''])) = set (chr_labels (karyotype_of [''1'', ''I''])) \<and>
   create_chr_color_map example_mpl (karyotype_of [''1'', ''I'']) ''plasma'' =
     Inr ([join_tab [''1'', ''0d0887''] @ [NL], join_tab [''I'', ''f0f921''] @ [NL]],
          [join_tab [''1'', ''0d0887''] @ [NL], join_tab [''2'', ''f0f921''] @ [NL]]) \<and>
   create_chr_color_map example_mpl (karyotype_of [''I'', ''1'']) ''plasma'' =
     Inr ([join_tab [''I'', ''0d0887''] @ [NL], join_tab [''1'', ''f0f921''] @ [NL]],
          [join_tab [''1'', ''0d0887''] @ [NL], join_tab [''2'', ''f0f921''] @ [NL]])"
  by (simp add: create_chr_color_map_def columns_of labels_of parse_defs generate_color_gradient_def
      example_mpl_def str_nat.simps upt_rec insert_commute)



section \<open>Ortholog matching: properties\<close>

lemma map_of_dict_set: "map_of (dict_set d k v) = (map_of d)(k \<mapsto> v)"
  by (induction d) (auto simp: fun_eq_iff)

lemma keys_dict_set:
  "map fst (dict_set d k v) = (if k \<in> set (map fst d) then map fst d else map fst d @ [k])"
  by (induction d) (force simp: image_iff)+

lemma unique_snoc: "unique (xs @ [k]) = (if k \<in> set xs then unique xs else unique xs @ [k])"
  by (simp add: unique_def)

lemma row_status_complete:
  "row ''Status'' \<noteq> Some PyNone \<Longrightarrow>
     \<exists>status. row_status row = Inr status \<and> (status = ''Complete'' \<longleftrightarrow> complete row)"
  by (auto simp: row_status_def complete_def strip_def split: option.splits pyval.splits)

lemma row_bid_clean:
  "clean_row row \<Longrightarrow> complete row \<Longrightarrow> row_bid row = Inr (bid_of row)"
  by (auto simp: clean_row_def bid_of_def row_bid_def split: option.splits pyval.splits)

lemma read_busco_loop_step:
  assumes "clean_row row"
  shows "read_busco_loop (row # rest) data =
           read_busco_loop rest (if complete row then dict_set data (bid_of row) row else data)"
proof -
  from assms have "row ''Status'' \<noteq> Some PyNone" by (simp add: clean_row_def)
  with row_status_complete [of row] obtain status
    where st: "row_status row = Inr status" "status = ''Complete'' \<longleftrightarrow> complete row" by blast
  show ?thesis
    using st row_bid_clean [OF assms] by (cases "complete row") auto
qed

lemma read_busco_loop_clean:
  assumes "list_all clean_row table" and "map fst data = unique pre"
  shows "\<exists>data'. read_busco_loop table data = Inr data' \<and>
           map fst data' = unique (pre @ map bid_of (filter complete table)) \<and>
           (\<forall>bid. map_of data' bid =
              (case last_complete table bid of None \<Rightarrow> map_of data bid | Some r \<Rightarrow> Some r))"
  using assms
proof (induction table arbitrary: data pre)
  case Nil
  then show ?case by (simp add: last_complete_def)
next
  case (Cons row rest)
  then have cr: "clean_row row" and rest: "list_all clean_row rest" by simp_all
  show ?case
  proof (cases "complete row")
    case False
    from Cons.IH [OF rest Cons.prems(2)] False show ?thesis
      by (simp add: read_busco_loop_step [OF cr] last_complete_def del: read_busco_loop.simps)
  next
    case True
    let ?d = "dict_set data (bid_of row) row"
    have keys: "map fst ?d = unique (pre @ [bid_of row])"
      using Cons.prems(2) by (simp add: keys_dict_set unique_snoc set_unique)
    from Cons.IH [OF rest keys] obtain data' where d':
      "read_busco_loop rest ?d = Inr data'"
      "map fst data' = unique ((pre @ [bid_of row]) @ map bid_of (filter complete rest))"
      "\<forall>bid. map_of data' bid =
              (case last_complete rest bid of None \<Rightarrow> map_of ?d bid | Some r \<Rightarrow> Some r)"
      by blast
    have "\<forall>bid. map_of data' bid =
              (case last_complete (row # rest) bid of None \<Rightarrow> map_of data bid | Some r \<Rightarrow> Some r)"
      using d'(3) True
      by (auto simp: last_complete_def map_of_dict_set split: list.splits)
    with d'(1,2) True show ?thesis
      by (simp add: read_busco_loop_step [OF cr] del: read_busco_loop.simps)
  qed
qed

lemma read_busco_clean:
  assumes "list_all clean_row table"
  shows "\<exists>data. read_busco table = Inr data \<and> map fst data = first_seen table \<and>
           map_of data = last_complete table"
proof -
  have "map fst ([] :: (string \<times> row) list) = unique []" by (simp add: unique_def)
  from read_busco_loop_clean [OF assms this] obtain data where d:
    "read_busco_loop table [] = Inr data"
    "map fst data = unique ([] @ map bid_of (filter complete table))"
    "\<forall>bid. map_of data bid =
        (case last_complete table bid of None \<Rightarrow> map_of [] bid | Some r \<Rightarrow> Some r)"
    by blast
  have "map_of data bid = last_complete table bid" for bid
    using d(3) by (cases "last_complete table bid") simp_all
  then have "map_of data = last_complete table" by (simp add: fun_eq_iff)
  with d(1,2) show ?thesis
    by (simp add: read_busco_def first_seen_def)
qed


lemma last_complete_SomeD:
  "last_complete table bid = Some row \<Longrightarrow> row \<in> set table \<and> complete row \<and> bid_of row = bid"
proof -
  assume a: "last_complete table bid = Some row"
  let ?fs = "filter (\<lambda>row. complete row \<and> bid_of row = bid) table"
  from a have "?fs \<noteq> []" and "row = last ?fs"
    by (auto simp: last_complete_def split: list.splits)
  then have "row \<in> set ?fs" by (metis last_in_set)
  then show ?thesis by simp
qed

lemma last_complete_complete:
  "row \<in> set table \<Longrightarrow> complete row \<Longrightarrow> last_complete table (bid_of row) \<noteq> None"
  by (auto simp: last_complete_def filter_empty_conv split: list.splits)

lemma last_complete_first_seen:
  "last_complete table bid \<noteq> None \<longleftrightarrow> bid \<in> set (first_seen table)"
proof
  assume "last_complete table bid \<noteq> None"
  then obtain row where "last_complete table bid = Some row" by auto
  from last_complete_SomeD [OF this] show "bid \<in> set (first_seen table)"
    by (auto simp: first_seen_def set_unique)
next
  assume "bid \<in> set (first_seen table)"
  then obtain row where "row \<in> set table" "complete row" "bid_of row = bid"
    by (auto simp: first_seen_def set_unique)
  with last_complete_complete [of row table] show "last_complete table bid \<noteq> None" by auto
qed

lemmas busco_defs = busco_row_def row_status_def row_bid_def lower_def lower_char_def
  small_letters_def capital_letters_def strip_def is_space_def
  complete_def clean_row_def

lemma clean_example_busco1: "list_all clean_row example_busco1"
  by (simp add: example_busco1_def busco_defs)

lemma clean_example_busco2: "list_all clean_row example_busco2"
  by (simp add: example_busco2_def busco_defs)

lemma read_busco_example:
  "read_busco example_busco1 =
     Inr [(''1at100'', busco_row ''1at100'' ''Complete'' ''1'' ''100'' ''200''),
          (''2at100'', busco_row ''2at100'' ''Complete'' ''2'' ''300'' ''400''),
          (''4at100'', busco_row ''4at100'' ''Complete'' ''3'' ''700'' ''800'')]"
  by (simp add: read_busco_def example_busco1_def row_status_def row_bid_def lower_def
      lower_char_def small_letters_def capital_letters_def strip_def is_space_def busco_row_def)

text \<open>
  Claim C5, as the program has it. For a clean table, the index built by
  \<^verbatim>\<open>read_busco\<close> holds exactly the complete rows: an identifier is a key of the index
  exactly when some row with that identifier is complete, it is mapped to the last such
  row, and no row that is not complete is in the index. Complete means that the status
  equals \<^verbatim>\<open>Complete\<close> (case-sensitive) after its surrounding whitespace is removed.
\<close>

theorem read_busco_retains_complete_rows:
  assumes "list_all clean_row table"
  shows "\<exists>data. read_busco table = Inr data \<and>
           (\<forall>bid row. (bid, row) \<in> set data \<longleftrightarrow> last_complete table bid = Some row) \<and>
           (\<forall>row \<in> set table. complete row \<longrightarrow> bid_of row \<in> fst ` set data) \<and>
           (\<forall>(bid, row) \<in> set data. row \<in> set table \<and> complete row \<and> bid_of row = bid)"
proof -
  from read_busco_clean [OF assms] obtain data where d:
    "read_busco table = Inr data" "map fst data = first_seen table"
    "map_of data = last_complete table" by blast
  have dist: "distinct (map fst data)"
    by (simp add: d(2) first_seen_def distinct_unique)
  have a: "(bid, row) \<in> set data \<longleftrightarrow> last_complete table bid = Some row" for bid row
    using dist d(3) by (metis map_of_eq_Some_iff)
  have b: "bid_of row \<in> fst ` set data" if "row \<in> set table" "complete row" for row
  proof -
    from last_complete_complete [OF that] obtain r where "last_complete table (bid_of row) = Some r"
      by auto
    then have "(bid_of row, r) \<in> set data" by (simp add: a)
    then show ?thesis by force
  qed
  have c: "row \<in> set table \<and> complete row \<and> bid_of row = bid" if "(bid, row) \<in> set data" for bid row
    using that a last_complete_SomeD by blast
  from d(1) a b c show ?thesis by blast
qed

theorem read_busco_retains_complete_rows_witness:
  "list_all clean_row example_busco1 \<and>
   (\<exists>data. read_busco example_busco1 = Inr data \<and>
      (\<forall>bid row. (bid, row) \<in> set data \<longleftrightarrow> last_complete example_busco1 bid = Some row) \<and>
      (\<forall>row \<in> set example_busco1. complete row \<longrightarrow> bid_of row \<in> fst ` set data) \<and>
      (\<forall>(bid, row) \<in> set data. row \<in> set example_busco1 \<and> complete row \<and> bid_of row = bid))"
  using read_busco_retains_complete_rows [OF clean_example_busco1] clean_example_busco1
  by blast

text \<open>
  Claim C5 as stated fails: a row whose status field is \<^verbatim>\<open>Complete\<close> followed by a
  blank, which is not exactly the string \<^verbatim>\<open>Complete\<close>, is retained in the index.
\<close>

theorem read_busco_retains_complete_rows_counterexample:
  "busco_row ''1at100'' ''Complete '' ''1'' ''100'' ''200'' ''Status'' = Some (PyStr ''Complete '') \<and>
   ''Complete '' \<noteq> ''Complete'' \<and>
   read_busco [busco_row ''1at100'' ''Complete '' ''1'' ''100'' ''200''] =
     Inr [(''1at100'', busco_row ''1at100'' ''Complete '' ''1'' ''100'' ''200'')]"
  by (simp add: read_busco_def row_status_def row_bid_def lower_def
      lower_char_def small_letters_def capital_letters_def strip_def is_space_def busco_row_def)

lemma link_line_valid:
  "link_line int_float row1 row2 \<noteq> None \<longleftrightarrow> valid_row int_float row1 \<and> valid_row int_float row2"
  by (auto simp: link_line_def valid_row_def truthy_def Let_def split: option.splits pyval.splits)

lemma link_of_valid:
  "link_of int_float table1 table2 bid \<noteq> None \<longleftrightarrow> shared_valid int_float table1 table2 bid"
  using link_line_valid [of int_float]
  by (cases "last_complete table1 bid"; cases "last_complete table2 bid")
     (simp_all add: link_of_def shared_valid_def)

lemma map_filter_filter:
  "\<forall>x. \<not> P x \<longrightarrow> f x = None \<Longrightarrow> List.map_filter f (filter P xs) = List.map_filter f xs"
  by (induction xs) (auto simp: List.map_filter_simps split: option.splits)

lemma length_map_filter:
  "length (List.map_filter f xs) = length (filter (\<lambda>x. f x \<noteq> None) xs)"
  by (simp add: List.map_filter_def)

text \<open>
  Claim C2. For two clean ortholog tables, \<^verbatim>\<open>merge_busco\<close> writes the header and then
  one link row for each shared identifier (an identifier, trimmed and lower-cased, that
  has a complete record with a valid contig and valid coordinates in both tables), and
  nothing else: the number of link rows is the number \<open>k\<close> of shared identifiers, the
  rows come in the order in which the identifiers first appear among the complete rows of
  the first table, and an identifier without a complete record in both tables gives no
  row. The record of an identifier is the last complete row that carries it, and a
  status is compared after trimming, as in claim C5.
\<close>

theorem merge_busco_shared_complete:
  assumes "list_all clean_row table1" and "list_all clean_row table2"
  shows "merge_busco int_float table1 table2 =
           Inr (link_header #
                List.map_filter (link_of int_float table1 table2) (first_seen table1)) \<and>
         length (List.map_filter (link_of int_float table1 table2) (first_seen table1)) =
           card {bid. shared_valid int_float table1 table2 bid} \<and>
         (\<forall>bid. link_of int_float table1 table2 bid \<noteq> None \<longleftrightarrow>
                shared_valid int_float table1 table2 bid) \<and>
         distinct (first_seen table1)"
proof -
  let ?f = "link_of int_float table1 table2"
  from read_busco_clean [OF assms(1)] obtain b1 where b1:
    "read_busco table1 = Inr b1" "map fst b1 = first_seen table1"
    "map_of b1 = last_complete table1" by blast
  from read_busco_clean [OF assms(2)] obtain b2 where b2:
    "read_busco table2 = Inr b2" "map fst b2 = first_seen table2"
    "map_of b2 = last_complete table2" by blast
  have row: "link_row int_float b1 b2 = ?f"
    by (simp add: fun_eq_iff link_row_def link_of_def b1(3) b2(3) cong: option.case_cong)
  have "\<forall>bid. \<not> bid \<in> set (map fst b2) \<longrightarrow> ?f bid = None"
    using last_complete_first_seen [of table2]
    by (auto simp: b2(2) link_of_def split: option.splits)
  then have "List.map_filter ?f (shared_ids b1 b2) = List.map_filter ?f (first_seen table1)"
    unfolding shared_ids_def b1(2) by (rule map_filter_filter)
  then have eq: "merge_busco int_float table1 table2 =
           Inr (link_header # List.map_filter ?f (first_seen table1))"
    by (simp add: merge_busco_def b1(1) b2(1) row)
  have dist: "distinct (first_seen table1)"
    by (simp add: first_seen_def distinct_unique)
  have sv: "x \<in> set (first_seen table1)" if "shared_valid int_float table1 table2 x" for x
  proof -
    from that have "last_complete table1 x \<noteq> None"
      by (auto simp: shared_valid_def split: option.splits)
    then show ?thesis by (simp only: last_complete_first_seen)
  qed
  have in_iff: "(x \<in> set (first_seen table1) \<and> ?f x \<noteq> None) \<longleftrightarrow>
      shared_valid int_float table1 table2 x" for x
    using sv [of x] link_of_valid [of int_float table1 table2 x] by blast
  have "set (filter (\<lambda>bid. ?f bid \<noteq> None) (first_seen table1)) =
          {bid. shared_valid int_float table1 table2 bid}"
    by (rule set_eqI) (simp only: set_filter mem_Collect_eq in_iff)
  moreover have "distinct (filter (\<lambda>bid. ?f bid \<noteq> None) (first_seen table1))"
    using dist by simp
  ultimately have "length (filter (\<lambda>bid. ?f bid \<noteq> None) (first_seen table1)) =
          card {bid. shared_valid int_float table1 table2 bid}"
    by (metis distinct_card)
  then have len: "length (List.map_filter ?f (first_seen table1)) =
          card {bid. shared_valid int_float table1 table2 bid}"
    by (simp add: length_map_filter)
  from eq len dist link_of_valid show ?thesis by blast
qed


lemma merge_busco_example:
  "merge_busco example_int_float example_busco1 example_busco2 =
     Inr [link_header,
          join_tab [''1'', ''100'', ''200'', ''5'', ''10'', ''20'', ''placeholder''] @ [NL],
          join_tab [''2'', ''300'', ''400'', ''7'', ''30'', ''40'', ''placeholder''] @ [NL]]"
  by (simp add: merge_busco_def read_busco_def example_busco1_def example_busco2_def
      row_status_def row_bid_def lower_def strip_def is_space_def busco_row_def
      shared_ids_def List.map_filter_simps link_row_def link_line_def contig_def py_or_def
      py_get_def truthy_def coord_def example_int_float_def py_int_def digit_val_def is_decimal_def
      int_strip_def is_int_space_def lower_char_def small_letters_def capital_letters_def
      str_int_def str_nat.simps)

theorem merge_busco_shared_complete_witness:
  "list_all clean_row example_busco1 \<and> list_all clean_row example_busco2 \<and>
   merge_busco example_int_float example_busco1 example_busco2 =
     Inr [link_header,
          join_tab [''1'', ''100'', ''200'', ''5'', ''10'', ''20'', ''placeholder''] @ [NL],
          join_tab [''2'', ''300'', ''400'', ''7'', ''30'', ''40'', ''placeholder''] @ [NL]] \<and>
   card {bid. shared_valid example_int_float example_busco1 example_busco2 bid} = 2"
proof -
  note t = merge_busco_shared_complete
             [OF clean_example_busco1 clean_example_busco2, of example_int_float]
  from t merge_busco_example
  have "List.map_filter (link_of example_int_float example_busco1 example_busco2)
          (first_seen example_busco1) =
        [join_tab [''1'', ''100'', ''200'', ''5'', ''10'', ''20'', ''placeholder''] @ [NL],
         join_tab [''2'', ''300'', ''400'', ''7'', ''30'', ''40'', ''placeholder''] @ [NL]]"
    by simp
  with t have "card {bid. shared_valid example_int_float example_busco1 example_busco2 bid} = 2"
    by simp
  with clean_example_busco1 clean_example_busco2 merge_busco_example show ?thesis by simp
qed



section \<open>Karyotype augmentation: properties\<close>

lemma augment_join_example:
  "augment_karyotype (karyotype_of [''1'', ''2'', ''3'']) (Inr example_chr_color_map) None
     (Val ''12'') (Val ''black'') =
     Inr ([''Chr'', ''Start'', ''End'', ''fill'', ''size'', ''color''],
          [[Val ''1'', Val ''1'', Val ''1000'', Val ''0d0887'', Val ''12'', Val ''black''],
           [Val ''2'', Val ''1'', Val ''1000'', Val ''f0f921'', Val ''12'', Val ''black''],
           [Val ''3'', Val ''1'', Val ''1000'', NaN, Val ''12'', Val ''black'']])"
  by (simp add: augment_karyotype_def karyotype_of_def finish_karyotype_def merge_left_on_Chr_def
      resolve_fill_def combine_first_def example_chr_color_map_def
      assign_column_def expected_order_def to_csv_def Let_def)


text \<open>
  Claim C6, as the program has it. When a colour map is joined (no flat fill is given),
  a karyotype table without a \<^verbatim>\<open>Chr\<close> column makes \<^verbatim>\<open>augment_karyotype\<close> end with a
  fatal error: the exception of reading the colour map if that fails, and otherwise the
  \<^verbatim>\<open>KeyError\<close> of the join.
\<close>

theorem augment_karyotype_missing_Chr:
  assumes "''Chr'' \<notin> set (columns df)" and "fill_all = None \<or> fill_all = Some []"
  shows "augment_karyotype df color_map fill_all label_size label_color =
           Inl (case color_map of Inl e \<Rightarrow> e | Inr chr_color_map \<Rightarrow> KeyError)"
  using assms
  by (auto simp: augment_karyotype_def merge_left_on_Chr_def split: sum.splits)

theorem augment_karyotype_missing_Chr_witness:
  "augment_karyotype example_karyotype_no_chr (Inr example_chr_color_map) None
     (Val ''12'') (Val ''black'') = Inl KeyError"
  using augment_karyotype_missing_Chr
          [of example_karyotype_no_chr None "Inr example_chr_color_map" "Val ''12''" "Val ''black''"]
  by (simp add: example_karyotype_no_chr_def)

text \<open>
  Claim C6 as stated fails: with a flat fill, the colour map is not read and a karyotype
  table without a \<^verbatim>\<open>Chr\<close> column is augmented and written.
\<close>

theorem augment_karyotype_missing_Chr_counterexample:
  "''Chr'' \<notin> set (columns example_karyotype_no_chr) \<and>
   augment_karyotype example_karyotype_no_chr (Inr example_chr_color_map) (Some ''cccccc'')
     (Val ''12'') (Val ''black'') =
     Inr ([''Start'', ''End'', ''fill'', ''size'', ''color''],
          [[Val ''1'', Val ''1000'', Val ''cccccc'', Val ''12'', Val ''black'']])"
  by (simp add: augment_karyotype_def example_karyotype_no_chr_def finish_karyotype_def
      assign_column_def expected_order_def to_csv_def Let_def)


end
